theory Spec2Isabelle
  imports Complex_Main
begin
section \<open>Data model\<close>

text \<open>
  Months are Python integers, maturity values are Python floats.  Floats are idealised as
  real numbers: every comparison of the source is exact on floats, and the arithmetic of
  the scores is read without rounding.  Dictionaries whose iteration order the code
  depends on are association lists in insertion order; lookup is \<open>map_of\<close>.
\<close>

type_synonym month = int
type_synonym vector = "real list"
type_synonym history = "(month \<times> vector) list"
type_synonym store = "(string \<times> history) list"

datatype error = ValueError | IndexError | KeyError | KeyboardInterrupt

text \<open>A \<open>collections.Counter\<close>: keys in insertion order, a missing key counts 0.\<close>

type_synonym counter = "(string \<times> nat) list"
type_synonym matrix = "(string \<times> counter) list"

definition count_of :: "counter \<Rightarrow> string \<Rightarrow> nat" where
  "count_of c k = (case map_of c k of None \<Rightarrow> 0 | Some n \<Rightarrow> n)"

definition edge_count :: "matrix \<Rightarrow> string \<Rightarrow> string \<Rightarrow> nat" where
  "edge_count tm a b = (case map_of tm a of None \<Rightarrow> 0 | Some c \<Rightarrow> count_of c b)"

section \<open>DataProcessor (src/data/processor.py)\<close>

text \<open>
  The store is \<open>team_histories\<close> after \<open>process()\<close>; the \<open>processed\<close> flag is taken
  to be set, which is the state in which every engine receives the processor.
\<close>

definition get_team_history :: "store \<Rightarrow> string \<Rightarrow> error + history" where
  "get_team_history st team_name =
     (case map_of st team_name of None \<Rightarrow> Inl ValueError | Some h \<Rightarrow> Inr h)"

definition get_all_teams :: "store \<Rightarrow> string list" where
  "get_all_teams st = map fst st"

definition get_all_months :: "store \<Rightarrow> month list" where
  "get_all_months st = sort (remdups (concat (map (\<lambda>(t, h). map fst h) st)))"

definition has_month :: "history \<Rightarrow> month \<Rightarrow> bool" where
  "has_month h m = (map_of h m \<noteq> None)"

section \<open>SequenceMapper (src/ml/sequences.py)\<close>

record mapper =
  transition_matrix :: matrix
  practice_improvement_freq :: counter
  learned :: bool
  sequence_cache :: "(month \<times> matrix \<times> counter) list"

definition new_mapper :: mapper where
  "new_mapper = \<lparr>transition_matrix = [], practice_improvement_freq = [],
                 learned = False, sequence_cache = []\<rparr>"

text \<open>\<open>c[k] += 1\<close> on a Counter.\<close>

fun counter_incr :: "string \<Rightarrow> counter \<Rightarrow> counter" where
  "counter_incr k [] = [(k, 1)]"
| "counter_incr k ((k', n) # c) =
     (if k = k' then (k', n + 1) # c else (k', n) # counter_incr k c)"

text \<open>\<open>tm[prev][curr] += 1\<close> on a \<open>defaultdict(Counter)\<close>.\<close>

fun matrix_incr :: "string \<Rightarrow> string \<Rightarrow> matrix \<Rightarrow> matrix" where
  "matrix_incr a b [] = [(a, counter_incr b [])]"
| "matrix_incr a b ((a', c) # tm) =
     (if a = a' then (a', counter_incr b c) # tm else (a', c) # matrix_incr a b tm)"

text \<open>
  The loop \<open>for j, (curr, nxt) in enumerate(zip(current_vector, next_vector))\<close>:
  the names of the practices whose value rose, in column order.  \<open>self.practices[j]\<close>
  raises IndexError when the vectors are longer than the practice list.
\<close>

fun improved_from :: "string list \<Rightarrow> nat \<Rightarrow> vector \<Rightarrow> vector \<Rightarrow> error + string list" where
  "improved_from ps j (c # cs) (n # ns) =
     (if n > c then
        (if j < length ps then
           (case improved_from ps (Suc j) cs ns of
              Inl e \<Rightarrow> Inl e
            | Inr r \<Rightarrow> Inr (ps ! j # r))
         else Inl IndexError)
      else improved_from ps (Suc j) cs ns)"
| "improved_from ps j _ _ = Inr []"

definition improved_practices :: "string list \<Rightarrow> vector \<Rightarrow> vector \<Rightarrow> error + string list" where
  "improved_practices ps cur nxt = improved_from ps 0 cur nxt"

text \<open>Consecutive elements: \<open>(xs[i], xs[i + 1])\<close> for \<open>i in range(len(xs) - 1)\<close>.\<close>

fun adjacent :: "'a list \<Rightarrow> ('a \<times> 'a) list" where
  "adjacent (x # y # xs) = (x, y) # adjacent (y # xs)"
| "adjacent _ = []"

text \<open>One month pair of one team: the body of the loop over \<open>i\<close>.\<close>

definition learn_pair ::
  "string list \<Rightarrow> history \<Rightarrow> month \<Rightarrow> month \<times> month \<Rightarrow> matrix \<times> counter
     \<Rightarrow> error + matrix \<times> counter" where
  "learn_pair ps h max_month p acc =
     (case p of (current_month, next_month) \<Rightarrow>
      if current_month \<ge> max_month \<or> next_month \<ge> max_month then Inr acc
      else
        (case (map_of h current_month, map_of h next_month) of
           (Some current_vector, Some next_vector) \<Rightarrow>
             (case improved_practices ps current_vector next_vector of
                Inl e \<Rightarrow> Inl e
              | Inr improved \<Rightarrow>
                  Inr (fold (\<lambda>(a, b). matrix_incr a b) (adjacent improved) (fst acc),
                       fold counter_incr improved (snd acc)))
         | _ \<Rightarrow> Inl KeyError))"

fun learn_pairs ::
  "string list \<Rightarrow> history \<Rightarrow> month \<Rightarrow> (month \<times> month) list \<Rightarrow> matrix \<times> counter
     \<Rightarrow> error + matrix \<times> counter" where
  "learn_pairs ps h max_month [] acc = Inr acc"
| "learn_pairs ps h max_month (p # pairs) acc =
     (case learn_pair ps h max_month p acc of
        Inl e \<Rightarrow> Inl e
      | Inr acc' \<Rightarrow> learn_pairs ps h max_month pairs acc')"

text \<open>The loop \<open>for team in teams\<close>.\<close>

fun learn_teams ::
  "string list \<Rightarrow> store \<Rightarrow> month \<Rightarrow> month list \<Rightarrow> string list \<Rightarrow> matrix \<times> counter
     \<Rightarrow> error + matrix \<times> counter" where
  "learn_teams ps st max_month available_months [] acc = Inr acc"
| "learn_teams ps st max_month available_months (team # teams) acc =
     (case get_team_history st team of
        Inl e \<Rightarrow> Inl e
      | Inr h \<Rightarrow>
          (let team_months = sort (filter (has_month h) available_months) in
           case learn_pairs ps h max_month (adjacent team_months) acc of
             Inl e \<Rightarrow> Inl e
           | Inr acc' \<Rightarrow> learn_teams ps st max_month available_months teams acc'))"

text \<open>Assignment \<open>d[k] = v\<close> on a dictionary: an existing key keeps its place.\<close>

fun dict_set :: "'k \<Rightarrow> 'v \<Rightarrow> ('k \<times> 'v) list \<Rightarrow> ('k \<times> 'v) list" where
  "dict_set k v [] = [(k, v)]"
| "dict_set k v ((k', v') # c) =
     (if k = k' then (k', v) # c else (k', v') # dict_set k v c)"

text \<open>
  \<open>learn_sequences_up_to_month\<close>.  The copies the source makes of the counters are the
  identity on values.  When \<open>self.practices[j]\<close> raises, the exception leaves the method
  and no cache entry is written; the counters the source has half filled by then are
  cleared or reloaded by the next call before anything reads them, so the model returns
  the error alone.
\<close>

definition learn_sequences_up_to_month ::
  "string list \<Rightarrow> store \<Rightarrow> month \<Rightarrow> mapper \<Rightarrow> error + mapper" where
  "learn_sequences_up_to_month ps st max_month s =
     (case map_of (sequence_cache s) max_month of
        Some (cached_transition_matrix, cached_practice_improvement_freq) \<Rightarrow>
          Inr (s\<lparr>transition_matrix := cached_transition_matrix,
                 practice_improvement_freq := cached_practice_improvement_freq,
                 learned := True\<rparr>)
      | None \<Rightarrow>
          (let teams = get_all_teams st;
               months = get_all_months st;
               available_months = filter (\<lambda>m. m < max_month) months
           in if length available_months < 2 then
                Inr (s\<lparr>transition_matrix := [], practice_improvement_freq := [],
                       learned := True,
                       sequence_cache := dict_set max_month ([], []) (sequence_cache s)\<rparr>)
              else
                (case learn_teams ps st max_month available_months teams ([], []) of
                   Inl e \<Rightarrow> Inl e
                 | Inr (tm, freq) \<Rightarrow>
                     Inr (s\<lparr>transition_matrix := tm, practice_improvement_freq := freq,
                            learned := True,
                            sequence_cache :=
                              dict_set max_month (tm, freq) (sequence_cache s)\<rparr>))))"

text \<open>
  \<open>get_typical_next_practices\<close>.  \<open>Counter.most_common(n)\<close> is the first \<open>n\<close> items of
  a stable sort by descending count.
\<close>

definition most_common :: "nat \<Rightarrow> counter \<Rightarrow> (string \<times> nat) list" where
  "most_common n c = take n (sort_key (\<lambda>(k, v). - int v) c)"

definition get_typical_next_practices ::
  "mapper \<Rightarrow> string \<Rightarrow> nat \<Rightarrow> error + (string \<times> real) list" where
  "get_typical_next_practices s practice top_n =
     (if \<not> learned s then Inl ValueError
      else case map_of (transition_matrix s) practice of
             None \<Rightarrow> Inr []
           | Some c \<Rightarrow>
               (let transitions = most_common top_n c;
                    total = sum_list (map snd c)
                in if total = 0 then Inr []
                   else Inr (map (\<lambda>(p, n). (p, real n / real total)) transitions)))"

section \<open>SimilarityEngine (src/ml/similarity.py)\<close>

text \<open>
  Modelled from the spec: \<open>cosine_similarity\<close> is a function of the scikit-learn library
  and not of this repository.  It is the dot product of the two vectors divided by the
  product of their Euclidean norms, a zero norm counting as 1; it raises ValueError when
  the vectors differ in length or have no entry.
\<close>

fun dot :: "vector \<Rightarrow> vector \<Rightarrow> real" where
  "dot (x # xs) (y # ys) = x * y + dot xs ys"
| "dot _ _ = 0"

definition l2_norm :: "vector \<Rightarrow> real" where
  "l2_norm v = sqrt (dot v v)"

definition cosine_similarity :: "vector \<Rightarrow> vector \<Rightarrow> error + real" where
  "cosine_similarity a b =
     (if length a \<noteq> length b \<or> a = [] then Inl ValueError
      else Inr (dot a b /
                ((if l2_norm a = 0 then 1 else l2_norm a) *
                 (if l2_norm b = 0 then 1 else l2_norm b))))"

text \<open>The slice \<open>xs[:k]\<close> for a Python integer \<open>k\<close>.\<close>

definition py_prefix :: "int \<Rightarrow> 'a list \<Rightarrow> 'a list" where
  "py_prefix k xs = (if k \<ge> 0 then take (nat k) xs else take (length xs - nat (- k)) xs)"

type_synonym similar = "string \<times> real \<times> month"

text \<open>The loop \<open>for team in all_teams\<close> for one historical month.\<close>

fun similarities_in_month ::
  "store \<Rightarrow> string \<Rightarrow> vector \<Rightarrow> real \<Rightarrow> month \<Rightarrow> string list \<Rightarrow> error + similar list" where
  "similarities_in_month st target_team target_vector min_similarity historical_month [] = Inr []"
| "similarities_in_month st target_team target_vector min_similarity historical_month (team # teams) =
     (if team = target_team then
        similarities_in_month st target_team target_vector min_similarity historical_month teams
      else
        (case get_team_history st team of
           Inl e \<Rightarrow> Inl e
         | Inr team_history \<Rightarrow>
             (case map_of team_history historical_month of
                None \<Rightarrow>
                  similarities_in_month st target_team target_vector min_similarity
                    historical_month teams
              | Some team_vector \<Rightarrow>
                  (case cosine_similarity target_vector team_vector of
                     Inl e \<Rightarrow> Inl e
                   | Inr similarity \<Rightarrow>
                       (case similarities_in_month st target_team target_vector min_similarity
                               historical_month teams of
                          Inl e \<Rightarrow> Inl e
                        | Inr r \<Rightarrow>
                            Inr (if similarity \<ge> min_similarity
                                 then (team, similarity, historical_month) # r else r))))))"

text \<open>The loop \<open>for historical_month in past_months\<close>.\<close>

fun all_similarities ::
  "store \<Rightarrow> string \<Rightarrow> vector \<Rightarrow> real \<Rightarrow> month list \<Rightarrow> error + similar list" where
  "all_similarities st target_team target_vector min_similarity [] = Inr []"
| "all_similarities st target_team target_vector min_similarity (historical_month # past_months) =
     (case similarities_in_month st target_team target_vector min_similarity historical_month
             (get_all_teams st) of
        Inl e \<Rightarrow> Inl e
      | Inr a \<Rightarrow>
          (case all_similarities st target_team target_vector min_similarity past_months of
             Inl e \<Rightarrow> Inl e
           | Inr b \<Rightarrow> Inr (a @ b)))"

text \<open>Deduplication by team: an entry replaces the stored one only when strictly more similar.\<close>

definition keep_best :: "similar \<Rightarrow> (string \<times> similar) list \<Rightarrow> (string \<times> similar) list" where
  "keep_best e team_best_similarity =
     (case e of (team, similarity, historical_month) \<Rightarrow>
        (case map_of team_best_similarity team of
           None \<Rightarrow> dict_set team e team_best_similarity
         | Some (t', s', m') \<Rightarrow>
             if similarity > s' then dict_set team e team_best_similarity
             else team_best_similarity))"

definition find_similar_teams ::
  "store \<Rightarrow> string \<Rightarrow> month \<Rightarrow> int \<Rightarrow> real \<Rightarrow> error + similar list" where
  "find_similar_teams st target_team target_month k min_similarity =
     (case get_team_history st target_team of
        Inl e \<Rightarrow> Inl e
      | Inr target_history \<Rightarrow>
          (case map_of target_history target_month of
             None \<Rightarrow> Inl ValueError
           | Some target_vector \<Rightarrow>
               (let all_months = get_all_months st;
                    past_months = filter (\<lambda>m. m < target_month) all_months
                in if past_months = [] then Inl ValueError
                   else
                     (case all_similarities st target_team target_vector min_similarity
                             past_months of
                        Inl e \<Rightarrow> Inl e
                      | Inr sims \<Rightarrow>
                          if sims = [] then Inl ValueError
                          else
                            (let team_best_similarity = fold keep_best sims [];
                                 unique_similarities = map snd team_best_similarity
                             in Inr (py_prefix k
                                       (sort_key (\<lambda>(t, s, m). - s) unique_similarities)))))))"

section \<open>RecommendationEngine (src/ml/recommender.py)\<close>

text \<open>\<open>xs.index(x)\<close>, \<open>None\<close> where Python raises ValueError.\<close>

fun index_of :: "'a \<Rightarrow> 'a list \<Rightarrow> nat option" where
  "index_of x [] = None"
| "index_of x (y # ys) = (if x = y then Some 0 else map_option Suc (index_of x ys))"

text \<open>\<open>d[k] += v\<close> on a \<open>defaultdict(float)\<close>.\<close>

fun dict_add :: "string \<Rightarrow> real \<Rightarrow> (string \<times> real) list \<Rightarrow> (string \<times> real) list" where
  "dict_add k v [] = [(k, 0 + v)]"
| "dict_add k v ((k', x) # d) =
     (if k = k' then (k', x + v) # d else (k', x) # dict_add k v d)"

text \<open>\<open>d.get(k, 0.0)\<close>.\<close>

definition dict_get :: "(string \<times> real) list \<Rightarrow> string \<Rightarrow> real" where
  "dict_get d k = (case map_of d k of None \<Rightarrow> 0 | Some v \<Rightarrow> v)"

text \<open>
  The inner loop of step 2 over the columns of one future month: the largest rise seen
  so far is kept per practice.
\<close>

fun note_improvements ::
  "string list \<Rightarrow> nat \<Rightarrow> vector \<Rightarrow> vector \<Rightarrow> (string \<times> real) list
     \<Rightarrow> error + (string \<times> real) list" where
  "note_improvements ps j (hist_state # hs) (future_state # fs) best_improvements =
     (if future_state > hist_state then
        (if j < length ps then
           (let practice_name = ps ! j;
                improvement_magnitude = future_state - hist_state
            in note_improvements ps (Suc j) hs fs
                 (case map_of best_improvements practice_name of
                    None \<Rightarrow> dict_set practice_name improvement_magnitude best_improvements
                  | Some b \<Rightarrow>
                      if improvement_magnitude > b
                      then dict_set practice_name improvement_magnitude best_improvements
                      else best_improvements))
         else Inl IndexError)
      else note_improvements ps (Suc j) hs fs best_improvements)"
| "note_improvements ps j _ _ best_improvements = Inr best_improvements"

text \<open>
  The loop \<open>for months_ahead in range(1, max_months_ahead + 1)\<close>, given the list of the
  values of \<open>months_ahead\<close>; each \<open>break\<close> ends it with the improvements found so far.
\<close>

fun forward_scan ::
  "string list \<Rightarrow> history \<Rightarrow> month list \<Rightarrow> nat \<Rightarrow> month \<Rightarrow> vector \<Rightarrow> nat list
     \<Rightarrow> (string \<times> real) list \<Rightarrow> error + (string \<times> real) list" where
  "forward_scan ps similar_history similar_months hist_idx current_month state_at_historical []
     best_improvements = Inr best_improvements"
| "forward_scan ps similar_history similar_months hist_idx current_month state_at_historical
     (months_ahead # rest) best_improvements =
     (if hist_idx + months_ahead \<ge> length similar_months then Inr best_improvements
      else
        (let similar_future_month = similar_months ! (hist_idx + months_ahead)
         in if similar_future_month > current_month then Inr best_improvements
            else
              (case map_of similar_history similar_future_month of
                 None \<Rightarrow> Inl KeyError
               | Some state_at_future \<Rightarrow>
                   (case note_improvements ps 0 state_at_historical state_at_future
                           best_improvements of
                      Inl e \<Rightarrow> Inl e
                    | Inr best' \<Rightarrow>
                        forward_scan ps similar_history similar_months hist_idx current_month
                          state_at_historical rest best'))))"

text \<open>
  The body of the \<open>try\<close> for one similar team.  The source fixes \<open>max_months_ahead = 3\<close>;
  the parameter \<open>similar_teams_lookahead_months\<close> of \<open>recommend\<close> is not read here nor
  anywhere else in the method.
\<close>

definition neighbour_improvements ::
  "string list \<Rightarrow> store \<Rightarrow> month \<Rightarrow> string \<Rightarrow> month \<Rightarrow> error + (string \<times> real) list" where
  "neighbour_improvements ps st current_month similar_team historical_month =
     (case get_team_history st similar_team of
        Inl e \<Rightarrow> Inl e
      | Inr similar_history \<Rightarrow>
          (case map_of similar_history historical_month of
             None \<Rightarrow> Inr []
           | Some similar_state_at_historical \<Rightarrow>
               (let similar_months = sort (map fst similar_history)
                in case index_of historical_month similar_months of
                     None \<Rightarrow> Inl ValueError
                   | Some hist_idx \<Rightarrow>
                       (let max_months_ahead = 3
                        in forward_scan ps similar_history similar_months hist_idx current_month
                             similar_state_at_historical [1 ..< max_months_ahead + 1] []))))"

text \<open>
  The loop \<open>for similar_team, similarity_weight, historical_month in similar_teams\<close>.
  Its second target is the name of the parameter \<open>similarity_weight\<close>, so every round
  rebinds that variable; the loop state is the score dictionary and the variable.  The
  body raises only KeyError, ValueError and IndexError, all caught by the \<open>except\<close>
  clause, which continues with the next team.
\<close>

fun similarity_loop ::
  "string list \<Rightarrow> store \<Rightarrow> month \<Rightarrow> similar list \<Rightarrow> (string \<times> real) list \<Rightarrow> real
     \<Rightarrow> (string \<times> real) list \<times> real" where
  "similarity_loop ps st current_month [] similarity_scores similarity_weight =
     (similarity_scores, similarity_weight)"
| "similarity_loop ps st current_month ((similar_team, sim, historical_month) # rest)
     similarity_scores similarity_weight =
     (case neighbour_improvements ps st current_month similar_team historical_month of
        Inl e \<Rightarrow> similarity_loop ps st current_month rest similarity_scores sim
      | Inr best_improvements \<Rightarrow>
          similarity_loop ps st current_month rest
            (fold (\<lambda>(practice_name, improvement_magnitude).
                     dict_add practice_name (sim * improvement_magnitude))
               best_improvements similarity_scores)
            sim)"

text \<open>
  Step 3, the loop \<open>for months_back in range(1, months_to_check + 1)\<close>: the practices
  the team raised against each of its last months.  The Python set is a list without
  repetition, in the order of first insertion.
\<close>

fun recent_improvements ::
  "string list \<Rightarrow> history \<Rightarrow> month list \<Rightarrow> nat \<Rightarrow> vector \<Rightarrow> nat list \<Rightarrow> string list
     \<Rightarrow> error + string list" where
  "recent_improvements ps h months_list current_idx current_scores [] recently = Inr recently"
| "recent_improvements ps h months_list current_idx current_scores (months_back # rest) recently =
     (if int current_idx - int months_back < 0 then Inr recently
      else
        (case map_of h (months_list ! (current_idx - months_back)) of
           None \<Rightarrow> Inl KeyError
         | Some past_scores \<Rightarrow>
             (case improved_practices ps past_scores current_scores of
                Inl e \<Rightarrow> Inl e
              | Inr names \<Rightarrow>
                  recent_improvements ps h months_list current_idx current_scores rest
                    (fold (\<lambda>n r. if n \<in> set r then r else r @ [n]) names recently))))"

text \<open>The sequence boost: the top three followers of every recently improved practice.\<close>

fun sequence_boost :: "mapper \<Rightarrow> string list \<Rightarrow> (string \<times> real) list \<Rightarrow> (string \<times> real) list" where
  "sequence_boost s [] sequence_scores = sequence_scores"
| "sequence_boost s (recently_improved # rest) sequence_scores =
     (case get_typical_next_practices s recently_improved 3 of
        Inl e \<Rightarrow> sequence_boost s rest sequence_scores
      | Inr nexts \<Rightarrow>
          sequence_boost s rest
            (fold (\<lambda>(next_practice, transition_prob). dict_add next_practice transition_prob)
               nexts sequence_scores))"

text \<open>\<open>max(d.values()) if d else 1.0\<close>.\<close>

definition max_or_one :: "(string \<times> real) list \<Rightarrow> real" where
  "max_or_one d = (if d = [] then 1 else Max (set (map snd d)))"

definition normalize_scores :: "(string \<times> real) list \<Rightarrow> (string \<times> real) list" where
  "normalize_scores d =
     (let mx = max_or_one d in map (\<lambda>(p, s). (p, if mx > 0 then s / mx else 0)) d)"

text \<open>
  Step 4.  The union of the two key sets is a Python set, whose order the language does
  not fix; the model lists the similarity keys first, then the new sequence keys.
\<close>

definition combine_scores ::
  "real \<Rightarrow> (string \<times> real) list \<Rightarrow> (string \<times> real) list \<Rightarrow> (string \<times> real) list" where
  "combine_scores similarity_weight similarity_scores sequence_scores =
     (let normalized_similarity = normalize_scores similarity_scores;
          normalized_sequence = normalize_scores sequence_scores;
          all_practices = map fst normalized_similarity @
            filter (\<lambda>p. p \<notin> set (map fst normalized_similarity)) (map fst normalized_sequence)
      in map (\<lambda>practice.
                (practice,
                 similarity_weight * dict_get normalized_similarity practice
                   + (1 - similarity_weight) * dict_get normalized_sequence practice))
           all_practices)"

text \<open>Step 5, the loop over \<open>practices_scores.items()\<close>.\<close>

fun filter_and_scale ::
  "string list \<Rightarrow> vector \<Rightarrow> real \<Rightarrow> (string \<times> real) list
     \<Rightarrow> error + (string \<times> real \<times> real) list" where
  "filter_and_scale ps current_scores max_score [] = Inr []"
| "filter_and_scale ps current_scores max_score ((practice, score) # rest) =
     (case index_of practice ps of
        None \<Rightarrow> Inl ValueError
      | Some practice_idx \<Rightarrow>
          if practice_idx \<ge> length current_scores then Inl IndexError
          else
            (let current_level = current_scores ! practice_idx
             in case filter_and_scale ps current_scores max_score rest of
                  Inl e \<Rightarrow> Inl e
                | Inr r \<Rightarrow>
                    if current_level \<ge> 1 then Inr r
                    else Inr ((practice, if max_score > 0 then score / max_score else 0,
                               current_level) # r)))"

text \<open>The scores the method has combined before step 5, for a learned mapper.\<close>

definition practices_scores_of ::
  "string list \<Rightarrow> store \<Rightarrow> mapper \<Rightarrow> history \<Rightarrow> month \<Rightarrow> similar list \<Rightarrow> real \<Rightarrow> int
     \<Rightarrow> error + (string \<times> real) list" where
  "practices_scores_of ps st s h current_month similar_teams similarity_weight
     recent_improvements_months =
     (let months_list = sort (map fst h)
      in case (map_of h current_month, index_of current_month months_list) of
           (Some current_scores, Some current_idx) \<Rightarrow>
             (case similarity_loop ps st current_month similar_teams [] similarity_weight of
                (similarity_scores, similarity_weight') \<Rightarrow>
                  (let months_to_check = min recent_improvements_months (int current_idx)
                   in case recent_improvements ps h months_list current_idx current_scores
                             [1 ..< nat (months_to_check + 1)] [] of
                        Inl e \<Rightarrow> Inl e
                      | Inr recently_improved_practices \<Rightarrow>
                          (let sequence_scores = sequence_boost s recently_improved_practices []
                           in Inr (combine_scores similarity_weight' similarity_scores
                                     sequence_scores))))
         | _ \<Rightarrow> Inl ValueError)"

type_synonym recommendation = "string \<times> real \<times> real"

text \<open>
  \<open>recommend\<close>.  The result is paired with the mapper, which the call to
  \<open>learn_sequences_up_to_month\<close> updates whether or not a later step raises.
\<close>

definition recommend ::
  "string list \<Rightarrow> store \<Rightarrow> mapper \<Rightarrow> string \<Rightarrow> month \<Rightarrow> int \<Rightarrow> int \<Rightarrow> bool \<Rightarrow> real \<Rightarrow> int \<Rightarrow> int
     \<Rightarrow> real \<Rightarrow> (error + recommendation list) \<times> mapper" where
  "recommend ps st s target_team current_month top_n k_similar allow_first_three_months
     similarity_weight similar_teams_lookahead_months recent_improvements_months
     min_similarity_threshold =
     (case get_team_history st target_team of
        Inl e \<Rightarrow> (Inl e, s)
      | Inr h \<Rightarrow>
          (case map_of h current_month of
             None \<Rightarrow> (Inl ValueError, s)
           | Some current_scores \<Rightarrow>
               if \<not> allow_first_three_months
                  \<and> length (sort (get_all_months st)) \<ge> 2
                  \<and> current_month \<in> set (take 1 (sort (get_all_months st)))
               then (Inl ValueError, s)
               else
                 (case learn_sequences_up_to_month ps st current_month s of
                    Inl e \<Rightarrow> (Inl e, s)
                  | Inr s' \<Rightarrow>
                      (case find_similar_teams st target_team current_month k_similar
                              min_similarity_threshold of
                         Inl e \<Rightarrow> (Inl e, s')
                       | Inr similar_teams \<Rightarrow>
                           if similar_teams = [] then (Inl ValueError, s')
                           else
                             (case practices_scores_of ps st s' h current_month similar_teams
                                     similarity_weight recent_improvements_months of
                                Inl e \<Rightarrow> (Inl e, s')
                              | Inr practices_scores \<Rightarrow>
                                  (case filter_and_scale ps current_scores
                                          (max_or_one practices_scores) practices_scores of
                                     Inl e \<Rightarrow> (Inl e, s')
                                   | Inr recommendations \<Rightarrow>
                                       (Inr (py_prefix top_n
                                               (sort_key (\<lambda>(p, score, level). - score)
                                                  recommendations)),
                                        s')))))))"

section \<open>BacktestEngine (src/validation/backtest.py)\<close>

text \<open>
  A configuration dictionary with the six keys the engines read; an absent key is
  \<open>None\<close> and \<open>config.get(key, default)\<close> is \<open>get_or\<close>.
\<close>

record config =
  top_n :: "int option"
  k_similar :: "int option"
  similarity_weight :: "real option"
  similar_teams_lookahead_months :: "int option"
  recent_improvements_months :: "int option"
  min_similarity_threshold :: "real option"

definition empty_config :: config where
  "empty_config = \<lparr>top_n = None, k_similar = None, similarity_weight = None,
     similar_teams_lookahead_months = None, recent_improvements_months = None,
     min_similarity_threshold = None\<rparr>"

definition get_or :: "'a option \<Rightarrow> 'a \<Rightarrow> 'a" where
  "get_or v d = (case v of None \<Rightarrow> d | Some x \<Rightarrow> x)"

text \<open>One entry of \<open>per_month_results\<close>.\<close>

record month_result =
  r_month :: month
  r_train_months :: "month list"
  r_predictions :: nat
  r_correct :: nat
  r_accuracy :: real
  r_teams_tested :: nat

text \<open>The values of the result dictionary, and the dictionary itself with its keys in order.\<close>

datatype bval = BStr string | BInt int | BReal real | BBool bool | BMonths "month_result list"

type_synonym bresult = "(string \<times> bval) list"

text \<open>
  The local variables of \<open>run_backtest\<close> that live across the loops, the mapper of the
  recommender, and the number of times the cancellation predicate has been called.  The
  predicate is given by its answers: \<open>check i\<close> is what its call number \<open>i\<close> returns.
\<close>

record bt_state =
  per_month_results :: "month_result list"
  total_predictions :: nat
  total_correct :: nat
  all_teams_tested :: "string list"
  improvements_per_case :: "nat list"
  bt_mapper :: mapper
  polls :: nat

datatype status = Completed | Cancelled | Raised error

text \<open>
  The actual improvement set of one case: what rose from the previous month to the test
  month and to the team's next two months.  The union of the three sets is a list
  without repetition.
\<close>

definition actual_improved_of ::
  "string list \<Rightarrow> history \<Rightarrow> month list \<Rightarrow> nat \<Rightarrow> error + string list" where
  "actual_improved_of ps h team_months test_idx =
     (case (map_of h (team_months ! (test_idx - 1)), map_of h (team_months ! test_idx)) of
        (Some prev_vector, Some test_vector) \<Rightarrow>
          (case improved_practices ps prev_vector test_vector of
             Inl e \<Rightarrow> Inl e
           | Inr month1 \<Rightarrow>
               (case (if test_idx + 1 < length team_months then
                        (case map_of h (team_months ! (test_idx + 1)) of
                           None \<Rightarrow> Inl KeyError
                         | Some next_vector \<Rightarrow> improved_practices ps prev_vector next_vector)
                      else Inr []) of
                  Inl e \<Rightarrow> Inl e
                | Inr month2 \<Rightarrow>
                    (case (if test_idx + 2 < length team_months then
                             (case map_of h (team_months ! (test_idx + 2)) of
                                None \<Rightarrow> Inl KeyError
                              | Some v \<Rightarrow> improved_practices ps prev_vector v)
                           else Inr []) of
                       Inl e \<Rightarrow> Inl e
                     | Inr month3 \<Rightarrow> Inr (remdups (month1 @ month2 @ month3)))))
      | _ \<Rightarrow> Inl KeyError)"

text \<open>\<open>s.add(x)\<close> on a set kept as a list.\<close>

definition set_add :: "'a \<Rightarrow> 'a list \<Rightarrow> 'a list" where
  "set_add x xs = (if x \<in> set xs then xs else xs @ [x])"

text \<open>
  The body of the \<open>try\<close> for one team in one test month.  The state beside
  \<open>bt_state\<close> is \<open>month_predictions\<close>, \<open>month_correct\<close> and
  \<open>teams_tested_this_month\<close>.  Every exception is swallowed by the bare \<open>except\<close>
  and the loop continues; the case count appended before \<open>recommend\<close> stays.
\<close>

definition backtest_team ::
  "string list \<Rightarrow> store \<Rightarrow> config \<Rightarrow> month list \<Rightarrow> month \<Rightarrow> string
     \<Rightarrow> bt_state \<times> nat \<times> nat \<times> string list \<Rightarrow> bt_state \<times> nat \<times> nat \<times> string list" where
  "backtest_team ps st cfg months test_month team \<sigma> =
     (case \<sigma> of (b, month_predictions, month_correct, teams_tested_this_month) \<Rightarrow>
      case get_team_history st team of
        Inl e \<Rightarrow> \<sigma>
      | Inr h \<Rightarrow>
          (let team_months = sort (filter (has_month h) months)
           in if \<not> has_month h test_month then \<sigma>
              else
                (case index_of test_month team_months of
                   None \<Rightarrow> \<sigma>
                 | Some test_idx \<Rightarrow>
                     if test_idx \<le> 0 then \<sigma>
                     else
                       (case actual_improved_of ps h team_months test_idx of
                          Inl e \<Rightarrow> \<sigma>
                        | Inr actual_improved \<Rightarrow>
                            if actual_improved = [] then \<sigma>
                            else
                              (let b1 = b\<lparr>improvements_per_case :=
                                            improvements_per_case b @ [length actual_improved]\<rparr>
                               in case recommend ps st (bt_mapper b1) team
                                         (team_months ! (test_idx - 1))
                                         (get_or (top_n cfg) 2)
                                         (get_or (k_similar cfg) 19)
                                         True
                                         (get_or (similarity_weight cfg) (6 / 10))
                                         (get_or (similar_teams_lookahead_months cfg) 3)
                                         (get_or (recent_improvements_months cfg) 3)
                                         (get_or (min_similarity_threshold cfg) (75 / 100)) of
                                    (Inl e, s') \<Rightarrow>
                                      (b1\<lparr>bt_mapper := s'\<rparr>, month_predictions, month_correct,
                                       teams_tested_this_month)
                                  | (Inr recommendations, s') \<Rightarrow>
                                      (let hit = (\<exists>r \<in> set recommendations.
                                                    fst r \<in> set actual_improved)
                                       in (b1\<lparr>bt_mapper := s',
                                               total_predictions := total_predictions b1 + 1,
                                               all_teams_tested := set_add team (all_teams_tested b1),
                                               total_correct :=
                                                 (if hit then total_correct b1 + 1
                                                  else total_correct b1)\<rparr>,
                                           month_predictions + 1,
                                           (if hit then month_correct + 1 else month_correct),
                                           set_add team teams_tested_this_month)))))))"

text \<open>
  The loop \<open>for team in teams\<close>; \<open>team_count\<close> is the number of teams already
  counted.  The result says whether a poll stopped the loop.
\<close>

fun team_loop ::
  "string list \<Rightarrow> store \<Rightarrow> config \<Rightarrow> (nat \<Rightarrow> bool) option \<Rightarrow> month list \<Rightarrow> month
     \<Rightarrow> string list \<Rightarrow> nat \<Rightarrow> bt_state \<times> nat \<times> nat \<times> string list
     \<Rightarrow> bool \<times> bt_state \<times> nat \<times> nat \<times> string list" where
  "team_loop ps st cfg check months test_month [] team_count \<sigma> = (False, \<sigma>)"
| "team_loop ps st cfg check months test_month (team # teams) team_count \<sigma> =
     (case \<sigma> of (b, rest) \<Rightarrow>
      case check of
        Some c \<Rightarrow>
          if (team_count + 1) mod 10 = 0 then
            (if c (polls b) then (True, b\<lparr>polls := polls b + 1\<rparr>, rest)
             else team_loop ps st cfg check months test_month teams (team_count + 1)
                    (backtest_team ps st cfg months test_month team
                       (b\<lparr>polls := polls b + 1\<rparr>, rest)))
          else team_loop ps st cfg check months test_month teams (team_count + 1)
                 (backtest_team ps st cfg months test_month team \<sigma>)
      | None \<Rightarrow>
          team_loop ps st cfg check months test_month teams (team_count + 1)
            (backtest_team ps st cfg months test_month team \<sigma>))"

text \<open>One poll of the cancellation predicate, when there is one.\<close>

definition poll :: "(nat \<Rightarrow> bool) option \<Rightarrow> bt_state \<Rightarrow> bool \<times> bt_state" where
  "poll check b =
     (case check of None \<Rightarrow> (False, b) | Some c \<Rightarrow> (c (polls b), b\<lparr>polls := polls b + 1\<rparr>))"

text \<open>The loop \<open>for test_month_idx in range(3, len(months))\<close>, given the indices.\<close>

fun month_loop ::
  "string list \<Rightarrow> store \<Rightarrow> config \<Rightarrow> (nat \<Rightarrow> bool) option \<Rightarrow> month list \<Rightarrow> nat list
     \<Rightarrow> bt_state \<Rightarrow> status \<times> bt_state" where
  "month_loop ps st cfg check months [] b = (Completed, b)"
| "month_loop ps st cfg check months (test_month_idx # idxs) b =
     (case poll check b of
        (True, b1) \<Rightarrow> (Cancelled, b1)
      | (False, b1) \<Rightarrow>
          (let test_month = months ! test_month_idx;
               train_months = take test_month_idx months
           in if train_months = [] then month_loop ps st cfg check months idxs b1
              else
                (case poll check b1 of
                   (True, b2) \<Rightarrow> (Cancelled, b2)
                 | (False, b2) \<Rightarrow>
                     (case learn_sequences_up_to_month ps st test_month (bt_mapper b2) of
                        Inl e \<Rightarrow> (Raised e, b2)
                      | Inr s' \<Rightarrow>
                          (case team_loop ps st cfg check months test_month (get_all_teams st) 0
                                  (b2\<lparr>bt_mapper := s'\<rparr>, 0, 0, []) of
                             (True, b3, rest) \<Rightarrow> (Cancelled, b3)
                           | (False, b3, month_predictions, month_correct,
                                teams_tested_this_month) \<Rightarrow>
                               (let month_accuracy =
                                      (if month_predictions > 0
                                       then real month_correct / real month_predictions else 0)
                                in month_loop ps st cfg check months idxs
                                     (b3\<lparr>per_month_results := per_month_results b3 @
                                          [\<lparr>r_month = test_month, r_train_months = train_months,
                                            r_predictions = month_predictions,
                                            r_correct = month_correct,
                                            r_accuracy = month_accuracy,
                                            r_teams_tested =
                                              length teams_tested_this_month\<rparr>]\<rparr>)))))))"

text \<open>
  Modelled from the spec: \<open>comb(N, k, exact=True)\<close> is a function of the SciPy library
  and not of this repository.  For an integral \<open>N\<close> it is the binomial coefficient, 0
  when \<open>k > N\<close> or an argument is negative; the specification takes the combinatorial
  form to be inapplicable for a non-integer mean, which is the library raising ValueError.
\<close>

definition comb :: "real \<Rightarrow> int \<Rightarrow> error + nat" where
  "comb N k =
     (if of_int \<lfloor>N\<rfloor> \<noteq> N then Inl ValueError
      else if k > \<lfloor>N\<rfloor> \<or> N < 0 \<or> k < 0 then Inr 0
      else Inr (nat \<lfloor>N\<rfloor> choose nat k))"

text \<open>
  The aggregation blocks, which the source writes out twice with the same text, at the
  end of \<open>run_backtest\<close> and in \<open>_build_partial_results\<close>.
\<close>

definition calc_overall_accuracy :: "month_result list \<Rightarrow> real" where
  "calc_overall_accuracy rs =
     (if rs \<noteq> [] then sum_list (map r_accuracy rs) / real (length rs) else 0)"

definition linear_baseline :: "real \<Rightarrow> nat \<Rightarrow> int \<Rightarrow> real" where
  "linear_baseline k_avg n tn = min 1 ((k_avg / real n) * of_int tn)"

definition calc_random_baseline :: "nat \<Rightarrow> nat list \<Rightarrow> int \<Rightarrow> real" where
  "calc_random_baseline n ipc tn =
     (if ipc \<noteq> [] \<and> n > 0 then
        (let k_avg = real (sum_list ipc) / real (length ipc)
         in if k_avg > 0 \<and> tn > 0 \<and> real n \<ge> k_avg \<and> int n \<ge> tn then
              (case comb (real n - k_avg) tn of
                 Inl e \<Rightarrow> linear_baseline k_avg n tn
               | Inr a \<Rightarrow>
                   (case comb (real n) tn of
                      Inl e \<Rightarrow> linear_baseline k_avg n tn
                    | Inr b \<Rightarrow>
                        if b = 0 then linear_baseline k_avg n tn
                        else 1 - real a / real b))
            else (if n > 0 then linear_baseline k_avg n tn else 0))
      else 0)"

definition calc_improvement_gap :: "nat \<Rightarrow> nat list \<Rightarrow> int \<Rightarrow> real \<Rightarrow> real" where
  "calc_improvement_gap n ipc tn overall_accuracy =
     (if ipc \<noteq> [] \<and> n > 0 then overall_accuracy - calc_random_baseline n ipc tn else 0)"

definition calc_improvement_factor :: "real \<Rightarrow> real \<Rightarrow> real" where
  "calc_improvement_factor overall_accuracy random_baseline =
     (if random_baseline > 0 then overall_accuracy / random_baseline else 0)"

definition calc_avg_improvements :: "nat list \<Rightarrow> real" where
  "calc_avg_improvements ipc =
     (if ipc \<noteq> [] then real (sum_list ipc) / real (length ipc) else 0)"

text \<open>\<open>_build_partial_results\<close>.\<close>

definition build_partial_results :: "string list \<Rightarrow> bt_state \<Rightarrow> int \<Rightarrow> bresult" where
  "build_partial_results ps b tn =
     (let overall_accuracy = calc_overall_accuracy (per_month_results b);
          n = length ps;
          random_baseline = calc_random_baseline n (improvements_per_case b) tn;
          improvement_gap = calc_improvement_gap n (improvements_per_case b) tn overall_accuracy;
          improvement_factor = calc_improvement_factor overall_accuracy random_baseline
      in [(''status'', BStr ''success''),
          (''per_month_results'', BMonths (per_month_results b)),
          (''total_predictions'', BInt (int (total_predictions b))),
          (''correct_predictions'', BInt (int (total_correct b))),
          (''overall_accuracy'', BReal overall_accuracy),
          (''random_baseline'', BReal random_baseline),
          (''improvement_gap'', BReal improvement_gap),
          (''improvement_factor'', BReal improvement_factor),
          (''teams_tested'', BInt (int (length (all_teams_tested b)))),
          (''avg_improvements_per_case'', BReal (calc_avg_improvements (improvements_per_case b))),
          (''cancelled'', BBool True)])"

text \<open>The end of \<open>run_backtest\<close> after the loop has run through.\<close>

definition build_final_results :: "string list \<Rightarrow> bt_state \<Rightarrow> int \<Rightarrow> bresult" where
  "build_final_results ps b tn =
     (let overall_accuracy = calc_overall_accuracy (per_month_results b);
          n = length ps;
          random_baseline = calc_random_baseline n (improvements_per_case b) tn;
          improvement_gap = calc_improvement_gap n (improvements_per_case b) tn overall_accuracy;
          improvement_factor = calc_improvement_factor overall_accuracy random_baseline
      in [(''status'', BStr ''success''),
          (''per_month_results'', BMonths (per_month_results b)),
          (''total_predictions'', BInt (int (total_predictions b))),
          (''correct_predictions'', BInt (int (total_correct b))),
          (''overall_accuracy'', BReal overall_accuracy),
          (''random_baseline'', BReal random_baseline),
          (''improvement_gap'', BReal improvement_gap),
          (''improvement_factor'', BReal improvement_factor),
          (''teams_tested'', BInt (int (length (all_teams_tested b)))),
          (''avg_improvements_per_case'', BReal (calc_avg_improvements (improvements_per_case b))),
          (''cancelled'', BBool False)])"

definition start_state :: "mapper \<Rightarrow> nat \<Rightarrow> bt_state" where
  "start_state s p = \<lparr>per_month_results = [], total_predictions = 0, total_correct = 0,
     all_teams_tested = [], improvements_per_case = [], bt_mapper = s, polls = p\<rparr>"

text \<open>
  \<open>run_backtest\<close>, started with the mapper in state \<open>s\<close> and a cancellation predicate
  already called \<open>p\<close> times.  It returns the result dictionary, or the exception that
  left the method, with the mapper and the number of calls of the predicate afterwards.
  With fewer than four months the method does not raise: it returns the dictionary with
  the key \<open>error\<close>.
\<close>

definition run_backtest ::
  "string list \<Rightarrow> store \<Rightarrow> config \<Rightarrow> (nat \<Rightarrow> bool) option \<Rightarrow> mapper \<Rightarrow> nat
     \<Rightarrow> (error + bresult) \<times> mapper \<times> nat" where
  "run_backtest ps st cfg check s p =
     (let months = sort (get_all_months st)
      in if length months < 4 then
           (Inr [(''error'', BStr ''Need at least 4 time periods (start from month 4)''),
                 (''cancelled'', BBool False)], s, p)
         else
           (case month_loop ps st cfg check months [3 ..< length months] (start_state s p) of
              (Cancelled, b) \<Rightarrow>
                (Inr (build_partial_results ps b (get_or (top_n cfg) 2)), bt_mapper b, polls b)
            | (Raised e, b) \<Rightarrow> (Inl e, bt_mapper b, polls b)
            | (Completed, b) \<Rightarrow>
                (Inr (build_final_results ps b (get_or (top_n cfg) 2)), bt_mapper b, polls b)))"

section \<open>OptimizationEngine (src/validation/optimizer.py)\<close>

text \<open>\<open>config.update(fixed_params)\<close>: every key of the fixed parameters overrides.\<close>

definition override :: "'a option \<Rightarrow> 'a option \<Rightarrow> 'a option" where
  "override fixed v = (case fixed of None \<Rightarrow> v | Some x \<Rightarrow> Some x)"

definition apply_fixed :: "config \<Rightarrow> config \<Rightarrow> config" where
  "apply_fixed fixed_params c =
     \<lparr>top_n = override (top_n fixed_params) (top_n c),
      k_similar = override (k_similar fixed_params) (k_similar c),
      similarity_weight = override (similarity_weight fixed_params) (similarity_weight c),
      similar_teams_lookahead_months =
        override (similar_teams_lookahead_months fixed_params) (similar_teams_lookahead_months c),
      recent_improvements_months =
        override (recent_improvements_months fixed_params) (recent_improvements_months c),
      min_similarity_threshold =
        override (min_similarity_threshold fixed_params) (min_similarity_threshold c)\<rparr>"

text \<open>\<open>generate_parameter_combinations\<close>: the product of the six ranges, the first
  range varying slowest; a range that is not given has its documented default.\<close>

definition generate_parameter_combinations ::
  "int list option \<Rightarrow> real list option \<Rightarrow> int list option \<Rightarrow> int list option
     \<Rightarrow> int list option \<Rightarrow> real list option \<Rightarrow> config option \<Rightarrow> config list" where
  "generate_parameter_combinations top_n_range similarity_weight_range k_similar_range
     lookahead_range recent_range min_similarity_range fixed_params =
     concat (map (\<lambda>t. concat (map (\<lambda>w. concat (map (\<lambda>k. concat (map (\<lambda>l.
       concat (map (\<lambda>r. map (\<lambda>m.
         apply_fixed (get_or fixed_params empty_config)
           \<lparr>top_n = Some t, k_similar = Some k, similarity_weight = Some w,
            similar_teams_lookahead_months = Some l, recent_improvements_months = Some r,
            min_similarity_threshold = Some m\<rparr>)
         (get_or min_similarity_range [0, 1 / 2, 75 / 100]))
         (get_or recent_range [3])))
         (get_or lookahead_range [3])))
         (get_or k_similar_range [5, 10, 15, 19, 20])))
         (get_or similarity_weight_range [6 / 10, 7 / 10, 8 / 10])))
         (get_or top_n_range [2, 3, 4, 5]))"

text \<open>An accepted configuration with its metrics.\<close>

record opt_entry =
  e_config :: config
  e_model_accuracy :: real
  e_random_baseline :: real
  e_improvement_gap :: real
  e_improvement_factor :: real
  e_total_predictions :: int
  e_correct_predictions :: int

text \<open>\<open>result.get(key, default)\<close> and \<open>key in result\<close> on a backtest result.\<close>

definition get_real :: "bresult \<Rightarrow> string \<Rightarrow> real \<Rightarrow> real" where
  "get_real d k dflt =
     (case map_of d k of Some (BReal x) \<Rightarrow> x | Some (BInt i) \<Rightarrow> of_int i | _ \<Rightarrow> dflt)"

definition get_int :: "bresult \<Rightarrow> string \<Rightarrow> int \<Rightarrow> int" where
  "get_int d k dflt = (case map_of d k of Some (BInt i) \<Rightarrow> i | _ \<Rightarrow> dflt)"

definition get_bool :: "bresult \<Rightarrow> string \<Rightarrow> bool \<Rightarrow> bool" where
  "get_bool d k dflt = (case map_of d k of Some (BBool x) \<Rightarrow> x | _ \<Rightarrow> dflt)"

definition has_key :: "bresult \<Rightarrow> string \<Rightarrow> bool" where
  "has_key d k = (map_of d k \<noteq> None)"

text \<open>
  The variables of the search loop.  \<open>best_improvement_gap\<close> starts at minus infinity,
  which is \<open>None\<close>.  The flag \<open>_cancelled\<close> is written by another thread; it is given
  by what each successive read of it returns, and \<open>flag_reads\<close> counts the reads, those
  of the backtest included.
\<close>

record opt_state =
  valid_results :: "opt_entry list"
  best_config :: "opt_entry option"
  best_improvement_gap :: "real option"
  early_stopped :: bool
  cancelled :: bool
  last_idx :: nat
  engine_mapper :: mapper
  flag_reads :: nat

definition make_entry :: "config \<Rightarrow> bresult \<Rightarrow> opt_entry" where
  "make_entry c result =
     \<lparr>e_config = c,
      e_model_accuracy = get_real result ''overall_accuracy'' 0,
      e_random_baseline = get_real result ''random_baseline'' 0,
      e_improvement_gap = get_real result ''improvement_gap'' 0,
      e_improvement_factor = get_real result ''improvement_factor'' 0,
      e_total_predictions = get_int result ''total_predictions'' 0,
      e_correct_predictions = get_int result ''correct_predictions'' 0\<rparr>"

text \<open>
  The loop \<open>for idx, config in enumerate(combinations)\<close>.  No progress callback is
  given.  A \<open>break\<close> returns the state; \<open>continue\<close> goes on with the rest.
\<close>

fun search_loop ::
  "string list \<Rightarrow> store \<Rightarrow> (nat \<Rightarrow> bool) \<Rightarrow> real \<Rightarrow> real \<Rightarrow> real \<Rightarrow> nat
     \<Rightarrow> (nat \<times> config) list \<Rightarrow> opt_state \<Rightarrow> opt_state" where
  "search_loop ps st flag min_accuracy early_stop_threshold early_stop_min_tested
     total_combinations [] \<sigma> = \<sigma>"
| "search_loop ps st flag min_accuracy early_stop_threshold early_stop_min_tested
     total_combinations ((idx, c) # rest) \<sigma> =
     (if flag (flag_reads \<sigma>) then
        \<sigma>\<lparr>cancelled := True, last_idx := idx, flag_reads := flag_reads \<sigma> + 1\<rparr>
      else
        (case run_backtest ps st c (Some flag) (engine_mapper \<sigma>) (flag_reads \<sigma> + 1) of
           (Inl e, s', p') \<Rightarrow>
             if e = KeyboardInterrupt then
               \<sigma>\<lparr>cancelled := True, last_idx := idx, engine_mapper := s', flag_reads := p'\<rparr>
             else
               search_loop ps st flag min_accuracy early_stop_threshold early_stop_min_tested
                 total_combinations rest
                 (\<sigma>\<lparr>last_idx := idx, engine_mapper := s', flag_reads := p'\<rparr>)
         | (Inr result, s', p') \<Rightarrow>
             (let \<sigma>1 = \<sigma>\<lparr>last_idx := idx, engine_mapper := s', flag_reads := p'\<rparr>
              in if get_bool result ''cancelled'' False then \<sigma>1\<lparr>cancelled := True\<rparr>
                 else if has_key result ''error'' then
                   search_loop ps st flag min_accuracy early_stop_threshold
                     early_stop_min_tested total_combinations rest \<sigma>1
                 else
                   (let accuracy = get_real result ''overall_accuracy'' 0
                    in if accuracy \<ge> min_accuracy then
                         (let improvement_gap = get_real result ''improvement_gap'' 0;
                              \<sigma>2 = \<sigma>1\<lparr>valid_results := valid_results \<sigma>1 @ [make_entry c result]\<rparr>
                          in if (case best_improvement_gap \<sigma>2 of
                                   None \<Rightarrow> True | Some g \<Rightarrow> improvement_gap > g) then
                               (let \<sigma>3 = \<sigma>2\<lparr>best_improvement_gap := Some improvement_gap,
                                            best_config := Some (make_entry c result)\<rparr>;
                                    tested_fraction = real (idx + 1) / real total_combinations
                                in if improvement_gap > early_stop_threshold then
                                     (if tested_fraction \<ge> early_stop_min_tested
                                         \<or> improvement_gap > 3 / 10
                                      then \<sigma>3\<lparr>early_stopped := True\<rparr>
                                      else search_loop ps st flag min_accuracy
                                             early_stop_threshold early_stop_min_tested
                                             total_combinations rest \<sigma>3)
                                   else if improvement_gap > 2 / 10 \<and> tested_fraction \<ge> 1 / 2
                                   then \<sigma>3\<lparr>early_stopped := True\<rparr>
                                   else search_loop ps st flag min_accuracy early_stop_threshold
                                          early_stop_min_tested total_combinations rest \<sigma>3)
                             else search_loop ps st flag min_accuracy early_stop_threshold
                                    early_stop_min_tested total_combinations rest \<sigma>2)
                       else search_loop ps st flag min_accuracy early_stop_threshold
                              early_stop_min_tested total_combinations rest \<sigma>1))))"

text \<open>The result of the search; the key \<open>results_file\<close> added after saving is left out.\<close>

record opt_result =
  optimal_config :: "config option"
  model_accuracy :: real
  random_baseline :: real
  improvement_gap :: real
  improvement_factor :: real
  best_total_predictions :: int
  best_correct_predictions :: int
  total_combinations_tested :: nat
  total_combinations_available :: nat
  valid_combinations :: nat
  all_results :: "opt_entry list"
  was_early_stopped :: bool
  was_cancelled :: bool

definition start_search :: "mapper \<Rightarrow> opt_state" where
  "start_search s = \<lparr>valid_results = [], best_config = None, best_improvement_gap = None,
     early_stopped = False, cancelled = False, last_idx = 0, engine_mapper = s,
     flag_reads = 0\<rparr>"

text \<open>The end of \<open>find_optimal_config\<close>, from the state the loop has left.\<close>

definition build_opt_result :: "nat \<Rightarrow> opt_state \<Rightarrow> opt_result" where
  "build_opt_result total_combinations \<sigma> =
     (let sorted_results = sort_key (\<lambda>x. - e_improvement_gap x) (valid_results \<sigma>);
          tested_count = (if cancelled \<sigma> \<or> early_stopped \<sigma> then last_idx \<sigma> + 1
                          else total_combinations)
      in \<lparr>optimal_config = map_option e_config (best_config \<sigma>),
          model_accuracy = (case best_config \<sigma> of None \<Rightarrow> 0 | Some b \<Rightarrow> e_model_accuracy b),
          random_baseline = (case best_config \<sigma> of None \<Rightarrow> 0 | Some b \<Rightarrow> e_random_baseline b),
          improvement_gap = (case best_config \<sigma> of None \<Rightarrow> 0 | Some b \<Rightarrow> e_improvement_gap b),
          improvement_factor =
            (case best_config \<sigma> of None \<Rightarrow> 0 | Some b \<Rightarrow> e_improvement_factor b),
          best_total_predictions =
            (case best_config \<sigma> of None \<Rightarrow> 0 | Some b \<Rightarrow> e_total_predictions b),
          best_correct_predictions =
            (case best_config \<sigma> of None \<Rightarrow> 0 | Some b \<Rightarrow> e_correct_predictions b),
          total_combinations_tested = tested_count,
          total_combinations_available = total_combinations,
          valid_combinations = length sorted_results,
          all_results = take 50 sorted_results,
          was_early_stopped = early_stopped \<sigma>,
          was_cancelled = cancelled \<sigma>\<rparr>)"

text \<open>
  \<open>find_optimal_config\<close>, on an engine whose mapper is in state \<open>s\<close>; \<open>flag\<close> gives the
  reads of \<open>_cancelled\<close> after the reset at the start.
\<close>

definition find_optimal_config ::
  "string list \<Rightarrow> store \<Rightarrow> mapper \<Rightarrow> (nat \<Rightarrow> bool) \<Rightarrow> real
     \<Rightarrow> int list option \<Rightarrow> real list option \<Rightarrow> int list option \<Rightarrow> int list option
     \<Rightarrow> int list option \<Rightarrow> real list option \<Rightarrow> config option \<Rightarrow> real \<Rightarrow> real
     \<Rightarrow> opt_result" where
  "find_optimal_config ps st s flag min_accuracy top_n_range similarity_weight_range
     k_similar_range lookahead_range recent_range min_similarity_range fixed_params
     early_stop_threshold early_stop_min_tested =
     (let combinations = generate_parameter_combinations top_n_range similarity_weight_range
            k_similar_range lookahead_range recent_range min_similarity_range fixed_params;
          total_combinations = length combinations
      in build_opt_result total_combinations
           (search_loop ps st flag min_accuracy early_stop_threshold early_stop_min_tested
              total_combinations (zip [0 ..< total_combinations] combinations)
              (start_search s)))"

section \<open>The transition model as the specification states it\<close>

text \<open>
  The practices whose value rose between two vectors, in the fixed practice order.
\<close>

definition rising :: "string list \<Rightarrow> vector \<Rightarrow> vector \<Rightarrow> string list" where
  "rising ps v1 v2 = map fst (filter (\<lambda>(p, c, n). n > c) (zip ps (zip v1 v2)))"

text \<open>
  The month pairs the specification allows to contribute for a cutoff \<open>M\<close>: consecutive
  months of one team's own sorted history, both strictly earlier than \<open>M\<close>; given as
  the two vectors of each pair.
\<close>

definition team_causal_pairs :: "history \<Rightarrow> month \<Rightarrow> (vector \<times> vector) list" where
  "team_causal_pairs h M =
     map (\<lambda>(m1, m2). (the (map_of h m1), the (map_of h m2)))
       (filter (\<lambda>(m1, m2). m1 < M \<and> m2 < M) (adjacent (sort (remdups (map fst h)))))"

definition causal_pairs :: "store \<Rightarrow> month \<Rightarrow> (vector \<times> vector) list" where
  "causal_pairs st M = concat (map (\<lambda>(t, h). team_causal_pairs h M) st)"

text \<open>How often a practice rose, and how often an edge occurs, over a list of pairs.\<close>

definition freq_of_pairs :: "string list \<Rightarrow> (vector \<times> vector) list \<Rightarrow> string \<Rightarrow> nat" where
  "freq_of_pairs ps vs p = sum_list (map (\<lambda>(v1, v2). count_list (rising ps v1 v2) p) vs)"

definition edges_of_pairs :: "string list \<Rightarrow> (vector \<times> vector) list \<Rightarrow> string \<Rightarrow> string \<Rightarrow> nat" where
  "edges_of_pairs ps vs a b =
     sum_list (map (\<lambda>(v1, v2). count_list (adjacent (rising ps v1 v2)) (a, b)) vs)"

text \<open>A mapper's life: a sequence of learning calls, stopped by the first exception.\<close>

fun learn_many :: "string list \<Rightarrow> store \<Rightarrow> month list \<Rightarrow> mapper \<Rightarrow> error + mapper" where
  "learn_many ps st [] s = Inr s"
| "learn_many ps st (M # Ms) s =
     (case learn_sequences_up_to_month ps st M s of
        Inl e \<Rightarrow> Inl e
      | Inr s' \<Rightarrow> learn_many ps st Ms s')"

text \<open>Bookkeeping for the proofs: counters grown by exactly the given pairs, and a cache
  whose every entry holds the counts of its own cutoff.\<close>

definition counts_are ::
  "string list \<Rightarrow> (vector \<times> vector) list \<Rightarrow> matrix \<times> counter \<Rightarrow> matrix \<times> counter \<Rightarrow> bool" where
  "counts_are ps vs acc acc' =
     ((\<forall>p. count_of (snd acc') p = count_of (snd acc) p + freq_of_pairs ps vs p) \<and>
      (\<forall>a b. edge_count (fst acc') a b = edge_count (fst acc) a b + edges_of_pairs ps vs a b))"

definition spec_counts :: "string list \<Rightarrow> store \<Rightarrow> month \<Rightarrow> matrix \<Rightarrow> counter \<Rightarrow> bool" where
  "spec_counts ps st M tm freq =
     ((\<forall>p. count_of freq p = freq_of_pairs ps (causal_pairs st M) p) \<and>
      (\<forall>a b. edge_count tm a b = edges_of_pairs ps (causal_pairs st M) a b))"

definition cache_ok :: "string list \<Rightarrow> store \<Rightarrow> mapper \<Rightarrow> bool" where
  "cache_ok ps st s =
     (\<forall>M tm freq. map_of (sequence_cache s) M = Some (tm, freq) \<longrightarrow> spec_counts ps st M tm freq)"

section \<open>The backtest as the specification states it\<close>

text \<open>Per-month accuracy: correct predictions over predictions, 0 without predictions.\<close>

definition accuracy_ok :: "month_result \<Rightarrow> bool" where
  "accuracy_ok r =
     (r_accuracy r = (if r_predictions r > 0 then real (r_correct r) / real (r_predictions r)
                      else 0))"

text \<open>
  The random baseline for \<open>N\<close> practices, mean improvement-set size \<open>k\<close> and \<open>t\<close>
  recommendations: the combinatorial form where it applies, the linear approximation
  otherwise.
\<close>

definition claimed_baseline :: "nat \<Rightarrow> real \<Rightarrow> int \<Rightarrow> real" where
  "claimed_baseline N k t =
     (if of_int \<lfloor>k\<rfloor> = k \<and> real N \<ge> k \<and> int N \<ge> t
      then 1 - real ((N - nat \<lfloor>k\<rfloor>) choose nat t) / real (N choose nat t)
      else min 1 ((k / real N) * of_int t))"

text \<open>What holds of the loop variables of \<open>run_backtest\<close> at every point.\<close>

definition bt_inv :: "string list \<Rightarrow> bt_state \<Rightarrow> bool" where
  "bt_inv ps b =
     ((\<forall>r \<in> set (per_month_results b). accuracy_ok r) \<and>
      (\<forall>k \<in> set (improvements_per_case b). k \<ge> 1) \<and>
      (improvements_per_case b \<noteq> [] \<longrightarrow> ps \<noteq> []))"

section \<open>The search as the specification states it\<close>

text \<open>
  What holds of the loop variables of \<open>find_optimal_config\<close> at every point: the best
  configuration is the first accepted entry that has the greatest improvement gap.
\<close>

definition search_inv :: "opt_state \<Rightarrow> bool" where
  "search_inv \<sigma> =
     (case best_config \<sigma> of
        None \<Rightarrow> valid_results \<sigma> = [] \<and> best_improvement_gap \<sigma> = None
      | Some b \<Rightarrow>
          best_improvement_gap \<sigma> = Some (e_improvement_gap b)
          \<and> b \<in> set (valid_results \<sigma>)
          \<and> (\<forall>e \<in> set (valid_results \<sigma>). e_improvement_gap e \<le> e_improvement_gap b)
          \<and> hd (filter (\<lambda>e. e_improvement_gap e = e_improvement_gap b) (valid_results \<sigma>)) = b)"

section \<open>A small history store\<close>

definition ex_ps :: "string list" where
  "ex_ps = [''P1'', ''P2'', ''P3'']"

definition ex_st :: store where
  "ex_st = [(''TeamA'', [(1, [0, 0, 0]), (2, [1/3, 1/3, 0]), (3, [2/3, 1/3, 1/3])]),
            (''TeamB'', [(1, [1/3, 0, 0]), (2, [1/3, 0, 1/3]), (3, [1, 1, 1])])]"

definition ex_mapper3 :: mapper where
  "ex_mapper3 =
     \<lparr>transition_matrix = [(''P1'', [(''P2'', 1)])],
      practice_improvement_freq = [(''P1'', 1), (''P2'', 1), (''P3'', 1)],
      learned = True,
      sequence_cache =
        [(2, [], []),
         (3, [(''P1'', [(''P2'', 1)])], [(''P1'', 1), (''P2'', 1), (''P3'', 1)])]\<rparr>"

section \<open>A history store of four months\<close>

text \<open>
  TeamB raises P1 in month 2 and TeamA in month 4.  One test month is evaluated, with one
  case: TeamA at month 4, predicted from month 3.
\<close>

definition bt_st :: store where
  "bt_st = [(''TeamA'', [(1, [1/3, 0, 0]), (2, [1/3, 0, 0]), (3, [1/3, 0, 0]), (4, [2/3, 0, 0])]),
            (''TeamB'', [(1, [1/3, 0, 0]), (2, [2/3, 0, 0]), (3, [2/3, 0, 0]), (4, [2/3, 0, 0])])]"

definition bt_m34 :: mapper where
  "bt_m34 = \<lparr>transition_matrix = [], practice_improvement_freq = [(''P1'', 1)], learned = True,
            sequence_cache = [(4, [], [(''P1'', 1)]), (3, [], [(''P1'', 1)])]\<rparr>"

definition bt_month4 :: month_result where
  "bt_month4 = \<lparr>r_month = 4, r_train_months = [1, 2, 3], r_predictions = 1, r_correct = 1,
                r_accuracy = 1, r_teams_tested = 1\<rparr>"

definition bt_result :: bresult where
  "bt_result =
     [(''status'', BStr ''success''),
      (''per_month_results'', BMonths [bt_month4]),
      (''total_predictions'', BInt 1),
      (''correct_predictions'', BInt 1),
      (''overall_accuracy'', BReal 1),
      (''random_baseline'', BReal (2/3)),
      (''improvement_gap'', BReal (1/3)),
      (''improvement_factor'', BReal (3/2)),
      (''teams_tested'', BInt 1),
      (''avg_improvements_per_case'', BReal 1),
      (''cancelled'', BBool False)]"

definition three_months :: "month_result list" where
  "three_months =
     [\<lparr>r_month = 4, r_train_months = [1, 2, 3], r_predictions = 2, r_correct = 1,
       r_accuracy = 1 / 2, r_teams_tested = 2\<rparr>,
      \<lparr>r_month = 5, r_train_months = [1, 2, 3, 4], r_predictions = 1, r_correct = 1,
       r_accuracy = 1, r_teams_tested = 1\<rparr>,
      \<lparr>r_month = 6, r_train_months = [1, 2, 3, 4, 5], r_predictions = 3, r_correct = 0,
       r_accuracy = 0, r_teams_tested = 3\<rparr>]"

section \<open>Stores for the recommender\<close>

text \<open>
  TeamB raises P1 and P2 together from month 1 to 2 and P3 from month 2 to 3; TeamA
  raises P1 from month 2 to 3, where it stands exactly as TeamB stood in month 2.
\<close>

definition c1_st :: store where
  "c1_st = [(''TeamA'', [(1, [0, 1/3, 0]), (2, [0, 1/3, 0]), (3, [1/3, 1/3, 0])]),
            (''TeamB'', [(1, [0, 0, 0]), (2, [1/3, 1/3, 0]), (3, [1/3, 1/3, 1/3])])]"

definition c1_m3 :: mapper where
  "c1_m3 = \<lparr>transition_matrix = [(''P1'', [(''P2'', 1)])],
            practice_improvement_freq = [(''P1'', 1), (''P2'', 1)], learned = True,
            sequence_cache = [(3, [(''P1'', [(''P2'', 1)])], [(''P1'', 1), (''P2'', 1)])]\<rparr>"

text \<open>TeamB raises P2 only in the second month after the month in which TeamA resembles it.\<close>

definition c2_st :: store where
  "c2_st = [(''TeamA'', [(3, [1/3, 0, 0])]),
            (''TeamB'', [(1, [1/3, 0, 0]), (2, [1/3, 0, 0]), (3, [1/3, 1/3, 0])])]"

text \<open>TeamA is at the maximum on P3, the practice its neighbour raised most.\<close>

definition c10_st :: store where
  "c10_st = [(''TeamA'', [(2, [0, 0, 1])]),
             (''TeamB'', [(1, [0, 0, 1/3]), (2, [0, 1/3, 1])])]"

section \<open>A search over three recommendation counts\<close>

definition opt_cfg :: "int \<Rightarrow> config" where
  "opt_cfg t = \<lparr>top_n = Some t, k_similar = Some 19, similarity_weight = Some (3/5),
     similar_teams_lookahead_months = Some 3, recent_improvements_months = Some 3,
     min_similarity_threshold = Some (3/4)\<rparr>"

definition opt_res :: "real \<Rightarrow> real \<Rightarrow> real \<Rightarrow> bresult" where
  "opt_res baseline gap factor =
     [(''status'', BStr ''success''),
      (''per_month_results'', BMonths [bt_month4]),
      (''total_predictions'', BInt 1),
      (''correct_predictions'', BInt 1),
      (''overall_accuracy'', BReal 1),
      (''random_baseline'', BReal baseline),
      (''improvement_gap'', BReal gap),
      (''improvement_factor'', BReal factor),
      (''teams_tested'', BInt 1),
      (''avg_improvements_per_case'', BReal 1),
      (''cancelled'', BBool False)]"

definition opt_entry_of :: "int \<Rightarrow> real \<Rightarrow> real \<Rightarrow> real \<Rightarrow> opt_entry" where
  "opt_entry_of t baseline gap factor =
     \<lparr>e_config = opt_cfg t, e_model_accuracy = 1, e_random_baseline = baseline,
      e_improvement_gap = gap, e_improvement_factor = factor, e_total_predictions = 1,
      e_correct_predictions = 1\<rparr>"

definition opt_found :: opt_result where
  "opt_found =
     \<lparr>optimal_config = Some (opt_cfg 1), model_accuracy = 1, random_baseline = 1/3,
      improvement_gap = 2/3, improvement_factor = 3, best_total_predictions = 1,
      best_correct_predictions = 1, total_combinations_tested = 3,
      total_combinations_available = 3, valid_combinations = 3,
      all_results = [opt_entry_of 1 (1/3) (2/3) 3, opt_entry_of 2 (2/3) (1/3) (3/2),
                     opt_entry_of 3 1 0 1],
      was_early_stopped = True, was_cancelled = False\<rparr>"

section \<open>Sequence mapper: proofs\<close>

lemma map_of_dict_set: "map_of (dict_set k v c) k' = (if k' = k then Some v else map_of c k')"
  by (induction c) auto

lemma improved_from_rising:
  "improved_from ps j cs ns = Inr r \<Longrightarrow> r = rising (drop j ps) cs ns"
proof (induction ps j cs ns arbitrary: r rule: improved_from.induct)
  case (1 ps j c cs n ns)
  show ?case
  proof (cases "n > c")
    case True
    with 1 show ?thesis
      by (auto simp: rising_def Cons_nth_drop_Suc[symmetric] split: if_splits sum.splits)
  next
    case False
    with 1 show ?thesis
      by (cases "j < length ps") (auto simp: rising_def Cons_nth_drop_Suc[symmetric])
  qed
qed (auto simp: rising_def)

lemma count_of_incr: "count_of (counter_incr k c) p = count_of c p + (if k = p then 1 else 0)"
  by (induction c) (auto simp: count_of_def)

lemma count_of_fold: "count_of (fold counter_incr xs c) p = count_of c p + count_list xs p"
  by (induction xs arbitrary: c) (auto simp: count_of_incr)

lemma map_of_matrix_incr:
  "map_of (matrix_incr a b tm) x =
     (if x = a then Some (counter_incr b (case map_of tm a of None \<Rightarrow> [] | Some c \<Rightarrow> c))
      else map_of tm x)"
  by (induction tm) auto

lemma edge_count_incr:
  "edge_count (matrix_incr a b tm) x y = edge_count tm x y + (if a = x \<and> b = y then 1 else 0)"
  by (simp add: edge_count_def map_of_matrix_incr count_of_incr split: option.splits)
     (simp add: count_of_def)

lemma edge_count_fold:
  "edge_count (fold (\<lambda>(a, b). matrix_incr a b) es tm) x y = edge_count tm x y + count_list es (x, y)"
  by (induction es arbitrary: tm) (auto simp: edge_count_incr split: if_splits)

lemma filter_less_empty: "\<forall>x\<in>set xs. (y::int) \<le> x \<Longrightarrow> \<not> y < M \<Longrightarrow> filter (\<lambda>m. m < M) xs = []"
  by (induction xs) auto

lemma adjacent_filter_sorted:
  "sorted xs \<Longrightarrow> adjacent (filter (\<lambda>m. m < (M::int)) xs) = filter (\<lambda>(a, b). a < M \<and> b < M) (adjacent xs)"
proof (induction xs rule: adjacent.induct)
  case (1 x y xs)
  show ?case
  proof (cases "y < M")
    case True
    with 1 show ?thesis by auto
  next
    case False
    with 1 have e: "filter (\<lambda>m. m < M) xs = []"
      by (intro filter_less_empty[of xs y]) auto
    from 1 False e show ?thesis by auto
  qed
qed auto

lemma team_months_eq:
  assumes "(t, h) \<in> set st"
  shows "sort (filter (has_month h) (filter (\<lambda>m. m < M) (get_all_months st)))
         = filter (\<lambda>m. m < M) (sort (remdups (map fst h)))"
proof -
  let ?l = "filter (has_month h) (filter (\<lambda>m. m < M) (get_all_months st))"
  let ?r = "filter (\<lambda>m. m < M) (sort (remdups (map fst h)))"
  have sl: "sorted ?l" "distinct ?l"
    by (auto simp: get_all_months_def intro: sorted_wrt_filter)
  have sr: "sorted ?r" "distinct ?r"
    by (auto intro: sorted_wrt_filter)
  have "fst ` set h \<subseteq> set (get_all_months st)"
    using assms by (force simp: get_all_months_def)
  then have "set ?l = set ?r"
    by (auto simp: has_month_def map_of_eq_None_iff weak_map_of_SomeI dest: map_of_SomeD)
  with sl sr have "?l = ?r"
    by (metis sorted_distinct_set_unique)
  moreover have "sort ?l = ?l" using sl by (simp add: sorted_sort_id)
  ultimately show ?thesis by simp
qed

lemma counts_are_nil: "counts_are ps [] acc acc"
  by (simp add: counts_are_def freq_of_pairs_def edges_of_pairs_def)

lemma counts_are_trans:
  "counts_are ps vs acc acc' \<Longrightarrow> counts_are ps ws acc' acc'' \<Longrightarrow> counts_are ps (vs @ ws) acc acc''"
  by (simp add: counts_are_def freq_of_pairs_def edges_of_pairs_def)

lemma learn_pair_counts:
  assumes "learn_pair ps h M (m1, m2) acc = Inr acc'" "m1 < M" "m2 < M"
  shows "counts_are ps [(the (map_of h m1), the (map_of h m2))] acc acc'"
  using assms
  by (auto simp: learn_pair_def counts_are_def freq_of_pairs_def edges_of_pairs_def
        improved_practices_def count_of_fold edge_count_fold
        split: option.splits sum.splits dest!: improved_from_rising)

lemma learn_pairs_counts:
  assumes "learn_pairs ps h M pairs acc = Inr acc'" "\<forall>(m1, m2) \<in> set pairs. m1 < M \<and> m2 < M"
  shows "counts_are ps (map (\<lambda>(m1, m2). (the (map_of h m1), the (map_of h m2))) pairs) acc acc'"
  using assms
proof (induction pairs arbitrary: acc)
  case Nil
  then show ?case by (simp add: counts_are_nil)
next
  case (Cons p pairs)
  obtain m1 m2 where p: "p = (m1, m2)" by (cases p)
  from Cons.prems obtain acc1 where
    a1: "learn_pair ps h M (m1, m2) acc = Inr acc1" and
    a2: "learn_pairs ps h M pairs acc1 = Inr acc'"
    by (auto simp: p split: sum.splits)
  from Cons.prems have lt: "m1 < M" "m2 < M" by (auto simp: p)
  have "counts_are ps ([(the (map_of h m1), the (map_of h m2))] @
          map (\<lambda>(m1, m2). (the (map_of h m1), the (map_of h m2))) pairs) acc acc'"
    using learn_pair_counts[OF a1 lt] Cons.IH[OF a2] Cons.prems(2)
    by (intro counts_are_trans) auto
  then show ?case by (simp add: p)
qed

lemma learn_teams_counts:
  assumes "learn_teams ps st M (filter (\<lambda>m. m < M) (get_all_months st)) teams acc = Inr acc'"
    and "\<forall>t \<in> set teams. \<exists>h. (t, h) \<in> set st"
  shows "counts_are ps
           (concat (map (\<lambda>t. team_causal_pairs (the (map_of st t)) M) teams)) acc acc'"
  using assms
proof (induction teams arbitrary: acc)
  case Nil
  then show ?case by (simp add: counts_are_nil)
next
  case (Cons t teams)
  from Cons.prems obtain h where h: "map_of st t = Some h"
    by (auto simp: get_team_history_def split: option.splits)
  then have mem: "(t, h) \<in> set st" by (rule map_of_SomeD)
  let ?pairs = "filter (\<lambda>(a, b). a < M \<and> b < M) (adjacent (sort (remdups (map fst h))))"
  have tm: "adjacent (sort (filter (has_month h) (filter (\<lambda>m. m < M) (get_all_months st)))) = ?pairs"
    unfolding team_months_eq[OF mem] by (rule adjacent_filter_sorted) simp
  from Cons.prems obtain acc1 where
    a1: "learn_pairs ps h M ?pairs acc = Inr acc1" and
    a2: "learn_teams ps st M (filter (\<lambda>m. m < M) (get_all_months st)) teams acc1 = Inr acc'"
    by (auto simp: get_team_history_def h tm Let_def simp del: filter_filter split: sum.splits)
  have c1: "counts_are ps (team_causal_pairs h M) acc acc1"
    unfolding team_causal_pairs_def by (rule learn_pairs_counts[OF a1]) auto
  have c2: "counts_are ps (concat (map (\<lambda>t. team_causal_pairs (the (map_of st t)) M) teams)) acc1 acc'"
    using Cons.IH[OF a2] Cons.prems(2) by simp
  show ?case using counts_are_trans[OF c1 c2] by (simp add: h)
qed

lemma causal_pairs_teams:
  "distinct (map fst st) \<Longrightarrow>
   concat (map (\<lambda>t. team_causal_pairs (the (map_of st t)) M) (get_all_teams st)) = causal_pairs st M"
proof -
  assume d: "distinct (map fst st)"
  have "map ((\<lambda>t. team_causal_pairs (the (map_of st t)) M) \<circ> fst) st
        = map (\<lambda>(t, h). team_causal_pairs h M) st"
    using d by (intro map_cong) (auto simp: map_of_eq_Some_iff)
  then show ?thesis unfolding causal_pairs_def get_all_teams_def map_map by (rule arg_cong)
qed

lemma short_no_pairs:
  assumes "length (filter (\<lambda>m. m < M) (get_all_months st)) < 2"
  shows "causal_pairs st M = []"
proof -
  have "team_causal_pairs h M = []" if mem: "(t, h) \<in> set st" for t h
  proof -
    let ?tm = "sort (filter (has_month h) (filter (\<lambda>m. m < M) (get_all_months st)))"
    have "length ?tm \<le> length (filter (\<lambda>m. m < M) (get_all_months st))"
      unfolding length_sort by (rule length_filter_le)
    with assms have "length ?tm < 2" by linarith
    then have "adjacent ?tm = []"
      by (cases ?tm rule: adjacent.cases) (simp_all del: filter_filter)
    moreover have "adjacent ?tm =
        filter (\<lambda>(a, b). a < M \<and> b < M) (adjacent (sort (remdups (map fst h))))"
      unfolding team_months_eq[OF mem] by (rule adjacent_filter_sorted) simp
    ultimately show ?thesis
      by (simp add: team_causal_pairs_def)
  qed
  then show ?thesis by (auto simp: causal_pairs_def)
qed

lemma learn_fresh_spec:
  assumes "learn_sequences_up_to_month ps st M s = Inr s'" "distinct (map fst st)"
    "map_of (sequence_cache s) M = None"
  shows "spec_counts ps st M (transition_matrix s') (practice_improvement_freq s')"
proof (cases "length (filter (\<lambda>m. m < M) (get_all_months st)) < 2")
  case True
  with assms show ?thesis
    by (auto simp: learn_sequences_up_to_month_def spec_counts_def short_no_pairs
        freq_of_pairs_def edges_of_pairs_def count_of_def edge_count_def)
next
  case False
  with assms obtain tm freq where
    l: "learn_teams ps st M (filter (\<lambda>m. m < M) (get_all_months st)) (get_all_teams st) ([], []) = Inr (tm, freq)"
    and s': "transition_matrix s' = tm" "practice_improvement_freq s' = freq"
    by (auto simp: learn_sequences_up_to_month_def Let_def split: sum.splits)
  have mem: "\<forall>t \<in> set (get_all_teams st). \<exists>h. (t, h) \<in> set st"
    by (auto simp: get_all_teams_def)
  have "counts_are ps (causal_pairs st M) ([], []) (tm, freq)"
    using learn_teams_counts[OF l mem] by (simp only: causal_pairs_teams[OF assms(2)])
  then show ?thesis
    by (simp add: counts_are_def spec_counts_def s' count_of_def edge_count_def)
qed

lemma learn_spec:
  assumes "learn_sequences_up_to_month ps st M s = Inr s'" "distinct (map fst st)" "cache_ok ps st s"
  shows "spec_counts ps st M (transition_matrix s') (practice_improvement_freq s')"
proof (cases "map_of (sequence_cache s) M")
  case None
  with assms show ?thesis by (intro learn_fresh_spec)
next
  case (Some e)
  with assms show ?thesis
    by (cases e) (auto simp: learn_sequences_up_to_month_def cache_ok_def)
qed

lemma learn_cached:
  assumes "learn_sequences_up_to_month ps st M s = Inr s'"
  shows "map_of (sequence_cache s') M = Some (transition_matrix s', practice_improvement_freq s')"
  using assms
  by (auto simp: learn_sequences_up_to_month_def Let_def map_of_dict_set
      split: option.splits sum.splits if_splits)

lemma learn_cache_others:
  assumes "learn_sequences_up_to_month ps st M s = Inr s'" "M' \<noteq> M"
  shows "map_of (sequence_cache s') M' = map_of (sequence_cache s) M'"
  using assms
  by (auto simp: learn_sequences_up_to_month_def Let_def map_of_dict_set
      split: option.splits sum.splits if_splits)

lemma learn_cache_ok:
  assumes "learn_sequences_up_to_month ps st M s = Inr s'" "distinct (map fst st)" "cache_ok ps st s"
  shows "cache_ok ps st s'"
  unfolding cache_ok_def
proof (intro allI impI)
  fix M' tm freq
  assume a: "map_of (sequence_cache s') M' = Some (tm, freq)"
  show "spec_counts ps st M' tm freq"
  proof (cases "M' = M")
    case True
    with a learn_cached[OF assms(1)] learn_spec[OF assms] show ?thesis by simp
  next
    case False
    with a learn_cache_others[OF assms(1)] assms(3) show ?thesis by (simp add: cache_ok_def)
  qed
qed

lemma learn_many_cache_ok:
  "learn_many ps st Ms s = Inr s' \<Longrightarrow> distinct (map fst st) \<Longrightarrow> cache_ok ps st s \<Longrightarrow> cache_ok ps st s'"
  by (induction Ms arbitrary: s) (auto split: sum.splits dest: learn_cache_ok)

lemma learn_many_snoc:
  "learn_many ps st (Ms @ [M]) s = Inr s'' \<Longrightarrow>
   \<exists>s'. learn_many ps st Ms s = Inr s' \<and> learn_sequences_up_to_month ps st M s' = Inr s''"
  by (induction Ms arbitrary: s) (auto split: sum.splits)

lemma cache_ok_new: "cache_ok ps st new_mapper"
  by (simp add: cache_ok_def new_mapper_def)

lemma learn_learned:
  assumes "learn_sequences_up_to_month ps st M s = Inr s'"
  shows "learned s'"
  using assms
  by (auto simp: learn_sequences_up_to_month_def Let_def
      split: option.splits sum.splits if_splits)

text \<open>
  Claim C3.  On a mapper that has only ever been used through
  \<open>learn_sequences_up_to_month\<close>, after a call with cutoff \<open>M\<close> the improvement
  frequency of every practice and the count of every transition edge are exactly the
  numbers obtained from the consecutive month pairs of each team's own history whose two
  months are both strictly earlier than \<open>M\<close>: no month at or after the cutoff contributes,
  whether the call computes the model or takes it from the cache.
\<close>

theorem sequences_only_from_before_cutoff:
  assumes "distinct (map fst st)"
    and "learn_many ps st (Ms @ [M]) new_mapper = Inr s"
  shows "count_of (practice_improvement_freq s) p = freq_of_pairs ps (causal_pairs st M) p
       \<and> edge_count (transition_matrix s) a b = edges_of_pairs ps (causal_pairs st M) a b"
proof -
  from learn_many_snoc[OF assms(2)] obtain s' where
    m: "learn_many ps st Ms new_mapper = Inr s'" and
    l: "learn_sequences_up_to_month ps st M s' = Inr s" by blast
  have "cache_ok ps st s'"
    by (rule learn_many_cache_ok[OF m assms(1) cache_ok_new])
  from learn_spec[OF l assms(1) this] show ?thesis
    by (simp add: spec_counts_def)
qed

theorem sequences_only_from_before_cutoff_witness:
  "distinct (map fst ex_st)
   \<and> learn_many ex_ps ex_st ([2] @ [3]) new_mapper = Inr ex_mapper3
   \<and> count_of (practice_improvement_freq ex_mapper3) ''P1''
       = freq_of_pairs ex_ps (causal_pairs ex_st 3) ''P1''
   \<and> edge_count (transition_matrix ex_mapper3) ''P1'' ''P3''
       = edges_of_pairs ex_ps (causal_pairs ex_st 3) ''P1'' ''P3''
   \<and> count_of (practice_improvement_freq ex_mapper3) ''P1'' = 1
   \<and> edge_count (transition_matrix ex_mapper3) ''P1'' ''P3'' = 0"
proof -
  have d: "distinct (map fst ex_st)"
    by (simp add: ex_st_def)
  have l: "learn_many ex_ps ex_st ([2] @ [3]) new_mapper = Inr ex_mapper3"
    by code_simp
  have v: "count_of (practice_improvement_freq ex_mapper3) ''P1'' = 1"
    "edge_count (transition_matrix ex_mapper3) ''P1'' ''P3'' = 0"
    by (simp_all add: ex_mapper3_def count_of_def edge_count_def)
  from sequences_only_from_before_cutoff[OF d l, of "''P1''" "''P1''" "''P3''"] d l v
  show ?thesis by simp
qed

text \<open>
  Claim C9.  After a successful call with cutoff \<open>M\<close> the cache holds the transition
  matrix and the frequency counts under the key \<open>M\<close>, and a second call with the same
  cutoff returns the very same mapper state whatever practice list and history store it
  is given: the counts are taken from the cache, not computed from the data again.
\<close>

theorem learn_twice_cached:
  assumes "learn_sequences_up_to_month ps st M s0 = Inr s1"
  shows "learn_sequences_up_to_month ps' st' M s1 = Inr s1
       \<and> map_of (sequence_cache s1) M = Some (transition_matrix s1, practice_improvement_freq s1)"
  using learn_cached[OF assms] learn_learned[OF assms]
  by (simp add: learn_sequences_up_to_month_def)

theorem learn_twice_cached_witness:
  "learn_sequences_up_to_month ex_ps ex_st 3 new_mapper
     = Inr (ex_mapper3\<lparr>sequence_cache := [(3, transition_matrix ex_mapper3,
                                              practice_improvement_freq ex_mapper3)]\<rparr>)
   \<and> learn_sequences_up_to_month [] [] 3
         (ex_mapper3\<lparr>sequence_cache := [(3, transition_matrix ex_mapper3,
                                              practice_improvement_freq ex_mapper3)]\<rparr>)
     = Inr (ex_mapper3\<lparr>sequence_cache := [(3, transition_matrix ex_mapper3,
                                              practice_improvement_freq ex_mapper3)]\<rparr>)"
proof -
  have l: "learn_sequences_up_to_month ex_ps ex_st 3 new_mapper
     = Inr (ex_mapper3\<lparr>sequence_cache := [(3, transition_matrix ex_mapper3,
                                              practice_improvement_freq ex_mapper3)]\<rparr>)"
    by code_simp
  from learn_twice_cached[OF l, of "[]" "[]"] l show ?thesis by simp
qed

section \<open>Backtest: proofs\<close>

lemma improved_practices_nonempty:
  "improved_practices ps a b = Inr names \<Longrightarrow> names \<noteq> [] \<Longrightarrow> ps \<noteq> []"
  by (auto simp: improved_practices_def rising_def dest!: improved_from_rising)

lemma actual_improved_nonempty:
  assumes "actual_improved_of ps h tm i = Inr a" "a \<noteq> []"
  shows "ps \<noteq> []"
  using assms
  by (auto simp: actual_improved_of_def split: option.splits sum.splits if_splits
      dest: improved_practices_nonempty)

lemma backtest_team_inv:
  assumes "bt_inv ps (fst \<sigma>)"
  shows "bt_inv ps (fst (backtest_team ps st cfg months tm team \<sigma>))"
proof -
  obtain b mp mc tt where s: "\<sigma> = (b, mp, mc, tt)" by (cases \<sigma>) auto
  show ?thesis
    using assms unfolding s backtest_team_def
    by (auto simp: bt_inv_def Let_def Suc_le_eq
        split: sum.splits option.splits prod.splits dest: actual_improved_nonempty)
qed

lemma team_loop_inv:
  "bt_inv ps (fst \<sigma>) \<Longrightarrow>
   bt_inv ps (fst (snd (team_loop ps st cfg check months tm teams cnt \<sigma>)))"
proof (induction teams arbitrary: cnt \<sigma>)
  case Nil
  then show ?case by simp
next
  case (Cons team teams)
  obtain b rest where s: "\<sigma> = (b, rest)" by (cases \<sigma>)
  have i1: "bt_inv ps (fst (b\<lparr>polls := polls b + 1\<rparr>, rest))"
    using Cons.prems by (simp add: s bt_inv_def)
  show ?case
    using Cons.IH[OF backtest_team_inv[OF Cons.prems]] Cons.IH[OF backtest_team_inv[OF i1]] i1
    by (auto simp: s split: option.splits)
qed

lemma poll_inv: "bt_inv ps b \<Longrightarrow> bt_inv ps (snd (poll check b))"
  by (auto simp: poll_def bt_inv_def split: option.splits)

lemma month_loop_inv:
  "bt_inv ps b \<Longrightarrow> bt_inv ps (snd (month_loop ps st cfg check months idxs b))"
proof (induction idxs arbitrary: b)
  case Nil
  then show ?case by simp
next
  case (Cons i idxs)
  obtain c1 b1 where p1: "poll check b = (c1, b1)" by (cases "poll check b")
  obtain c2 b2 where p2: "poll check b1 = (c2, b2)" by (cases "poll check b1")
  have i1: "bt_inv ps b1" using poll_inv[OF Cons.prems, of check] by (simp add: p1)
  have i2: "bt_inv ps b2" using poll_inv[OF i1, of check] by (simp add: p2)
  show ?case
  proof (cases "c1 \<or> take i months = [] \<or> c2")
    case True
    then show ?thesis using i1 i2 Cons.IH[OF i1]
      by (cases c1; cases c2) (auto simp: p1 p2 Let_def simp del: take_eq_Nil)
  next
    case False
    show ?thesis
    proof (cases "learn_sequences_up_to_month ps st (months ! i) (bt_mapper b2)")
      case (Inl e)
      then show ?thesis using False i2
        by (cases c1; cases c2) (auto simp: p1 p2 Let_def simp del: take_eq_Nil)
    next
      case (Inr s')
      let ?t = "team_loop ps st cfg check months (months ! i) (get_all_teams st) 0
                  (b2\<lparr>bt_mapper := s'\<rparr>, 0, 0, [])"
      obtain c3 b3 mp mc tt where t: "?t = (c3, b3, mp, mc, tt)" by (cases ?t) auto
      have "bt_inv ps (fst (b2\<lparr>bt_mapper := s'\<rparr>, 0::nat, 0::nat, []::string list))"
        using i2 by (simp add: bt_inv_def)
      from team_loop_inv[OF this, of st cfg check months "months ! i" "get_all_teams st" 0]
      have i3: "bt_inv ps b3" by (simp add: t)
      let ?r = "\<lparr>r_month = months ! i, r_train_months = take i months, r_predictions = mp,
                  r_correct = mc,
                  r_accuracy = (if mp > 0 then real mc / real mp else 0),
                  r_teams_tested = length tt\<rparr>"
      have i4: "bt_inv ps (b3\<lparr>per_month_results := per_month_results b3 @ [?r]\<rparr>)"
        using i3 by (auto simp: bt_inv_def accuracy_ok_def)
      show ?thesis
        using False Inr i3 Cons.IH[OF i4]
        by (cases c1; cases c2; cases c3) (auto simp: p1 p2 t Let_def simp del: take_eq_Nil)
    qed
  qed
qed

lemma start_inv: "bt_inv ps (start_state s p)"
  by (simp add: bt_inv_def start_state_def)

lemma keys_partial:
  "map fst (build_partial_results ps b tn) =
     [''status'', ''per_month_results'', ''total_predictions'', ''correct_predictions'',
      ''overall_accuracy'', ''random_baseline'', ''improvement_gap'', ''improvement_factor'',
      ''teams_tested'', ''avg_improvements_per_case'', ''cancelled'']"
  by (simp add: build_partial_results_def Let_def)

lemma keys_final:
  "map fst (build_final_results ps b tn) =
     [''status'', ''per_month_results'', ''total_predictions'', ''correct_predictions'',
      ''overall_accuracy'', ''random_baseline'', ''improvement_gap'', ''improvement_factor'',
      ''teams_tested'', ''avg_improvements_per_case'', ''cancelled'']"
  by (simp add: build_final_results_def Let_def)

text \<open>Every result without the key error is one of the two dictionaries, built from a
  state that satisfies the invariant.\<close>

lemma run_backtest_cases:
  assumes "run_backtest ps st cfg check s p = (Inr d, s', p')"
  shows "(length (get_all_months st) < 4 \<and>
          d = [(''error'', BStr ''Need at least 4 time periods (start from month 4)''),
               (''cancelled'', BBool False)]) \<or>
         (4 \<le> length (get_all_months st) \<and>
          (\<exists>b. bt_inv ps b \<and>
             (d = build_partial_results ps b (get_or (top_n cfg) 2) \<or>
              d = build_final_results ps b (get_or (top_n cfg) 2))))"
proof (cases "length (get_all_months st) < 4")
  case True
  with assms show ?thesis by (auto simp: run_backtest_def)
next
  case False
  let ?months = "sort (get_all_months st)"
  let ?m = "month_loop ps st cfg check ?months [3 ..< length ?months] (start_state s p)"
  obtain stat b where m: "?m = (stat, b)" by (cases ?m)
  have "bt_inv ps b"
    using month_loop_inv[OF start_inv, of ps st cfg check ?months "[3 ..< length ?months]" s p] m
    by simp
  with assms False m show ?thesis
    by (cases stat) (auto simp: run_backtest_def Let_def)
qed

lemma no_error_partial: "\<not> has_key (build_partial_results ps b tn) ''error''"
  by (simp add: build_partial_results_def has_key_def Let_def)

lemma no_error_final: "\<not> has_key (build_final_results ps b tn) ''error''"
  by (simp add: build_final_results_def has_key_def Let_def)

lemma sum_list_map3: "map f rs = [a, b, c] \<Longrightarrow> sum_list (map f rs) = a + b + c \<and> length rs = 3"
  by (metis add.right_neutral length_map list.size(3) list.size(4) numeral_3_eq_3 sum_list.Cons sum_list.Nil add.assoc One_nat_def Suc_eq_plus1)

lemma sum_list_ge_length: "\<forall>k \<in> set (ipc::nat list). k \<ge> 1 \<Longrightarrow> length ipc \<le> sum_list ipc"
  by (induction ipc) auto

lemma comb_int:
  "comb (of_int j) t = Inr (if t > j \<or> j < 0 \<or> t < 0 then 0 else nat j choose nat t)"
  by (simp add: comb_def)

lemma comb_nonint: "of_int \<lfloor>x\<rfloor> \<noteq> x \<Longrightarrow> comb x t = Inl ValueError"
  by (simp add: comb_def)

lemma calc_random_baseline_claimed:
  assumes ne: "ipc \<noteq> []" and ge: "\<forall>k \<in> set ipc. k \<ge> 1" and n: "n > 0" and tn: "0 \<le> tn"
  shows "calc_random_baseline n ipc tn
         = claimed_baseline n (real (sum_list ipc) / real (length ipc)) tn"
proof -
  define k where "k = real (sum_list ipc) / real (length ipc)"
  have len: "0 < length ipc" using ne by simp
  have "0 < sum_list ipc" using sum_list_ge_length[OF ge] len by linarith
  then have kpos: "k > 0"
    using len by (simp add: k_def)
  show ?thesis
  proof (cases "tn > 0 \<and> real n \<ge> k \<and> int n \<ge> tn")
    case True
    show ?thesis
    proof (cases "of_int \<lfloor>k\<rfloor> = k")
      case False
      have "of_int \<lfloor>real n - k\<rfloor> \<noteq> real n - k"
      proof
        assume a: "of_int \<lfloor>real n - k\<rfloor> = real n - k"
        have "k = real n - of_int \<lfloor>real n - k\<rfloor>" using a by linarith
        then have "k = of_int (int n - \<lfloor>real n - k\<rfloor>)" by simp
        then have "of_int \<lfloor>k\<rfloor> = k" by (metis floor_of_int)
        with False show False ..
      qed
      then show ?thesis
        using True False ne n kpos
        by (simp add: calc_random_baseline_def claimed_baseline_def k_def[symmetric] Let_def
            comb_nonint linear_baseline_def)
    next
      case int: True
      define j where "j = \<lfloor>k\<rfloor>"
      have kj: "k = of_int j" unfolding j_def by (rule int[symmetric])
      have j0: "0 < j" "j \<le> int n" using kpos True by (simp_all add: kj)
      have c1: "comb (real n - k) tn = Inr ((n - nat j) choose nat tn)"
      proof -
        have "real n - k = of_int (int n - j)" by (simp add: kj)
        then have "comb (real n - k) tn
           = Inr (if tn > int n - j \<or> int n - j < 0 \<or> tn < 0 then 0 else nat (int n - j) choose nat tn)"
          by (simp only: comb_int)
        moreover have "nat (int n - j) = n - nat j" using j0 by linarith
        moreover have "tn > int n - j \<Longrightarrow> (n - nat j) choose nat tn = 0"
          using j0 tn by (intro binomial_eq_0) linarith
        ultimately show ?thesis using j0 tn by auto
      qed
      have c2: "comb (real n) tn = Inr (n choose nat tn)"
        using comb_int[of "int n" tn] True by simp
      have "nat tn \<le> n" using True by linarith
      then have nz: "n choose nat tn \<noteq> 0"
        using zero_less_binomial[of "nat tn" n] by simp
      show ?thesis
        using True int ne n kpos nz
        by (simp add: calc_random_baseline_def claimed_baseline_def k_def[symmetric] Let_def
            c1 c2 j_def)
    qed
  next
    case False
    have code: "calc_random_baseline n ipc tn = linear_baseline k n tn"
      using False ne n kpos
      by (auto simp: calc_random_baseline_def k_def[symmetric] Let_def)
    show ?thesis
    proof (cases "of_int \<lfloor>k\<rfloor> = k \<and> real n \<ge> k \<and> int n \<ge> tn")
      case True
      with False tn have "tn = 0" by auto
      then show ?thesis
        unfolding code using True
        by (simp add: claimed_baseline_def k_def[symmetric] linear_baseline_def)
    next
      case F2: False
      then show ?thesis
        unfolding code
        by (auto simp: claimed_baseline_def k_def[symmetric] linear_baseline_def)
    qed
  qed
qed

section \<open>The four-month store evaluated\<close>

lemma bt_months: "get_all_months bt_st = [1, 2, 3, 4]"
  by code_simp

lemma bt_teams: "get_all_teams bt_st = [''TeamA'', ''TeamB'']"
  by code_simp

lemma bt_histA:
  "get_team_history bt_st ''TeamA''
   = Inr [(1, [1/3, 0, 0]), (2, [1/3, 0, 0]), (3, [1/3, 0, 0]), (4, [2/3, 0, 0])]"
  by (simp add: bt_st_def get_team_history_def)

lemma bt_histB:
  "get_team_history bt_st ''TeamB''
   = Inr [(1, [1/3, 0, 0]), (2, [2/3, 0, 0]), (3, [2/3, 0, 0]), (4, [2/3, 0, 0])]"
  by (simp add: bt_st_def get_team_history_def)

lemma bt_cos1: "cosine_similarity [1/3, 0, 0] [1/3, 0, 0] = Inr 1"
  by (simp add: cosine_similarity_def l2_norm_def)

lemma bt_cos2: "cosine_similarity [1/3, 0, 0] [2/3, 0, 0] = Inr 1"
  by (simp add: cosine_similarity_def l2_norm_def real_sqrt_mult real_sqrt_divide)

lemma bt_similar: "find_similar_teams bt_st ''TeamA'' 3 19 (3/4) = Inr [(''TeamB'', 1, 1)]"
  by (simp add: find_similar_teams_def bt_histA bt_histB bt_months bt_teams bt_cos1 bt_cos2
      keep_best_def py_prefix_def)

lemmas bt_eval = bt_months bt_teams bt_histA bt_histB bt_similar
  run_backtest_def start_state_def poll_def learn_sequences_up_to_month_def Let_def
  has_month_def learn_pair_def improved_practices_def backtest_team_def actual_improved_of_def
  get_or_def empty_config_def recommend_def practices_scores_of_def neighbour_improvements_def
  combine_scores_def normalize_scores_def max_or_one_def dict_get_def py_prefix_def set_add_def
  get_typical_next_practices_def most_common_def new_mapper_def ex_ps_def

lemma bt_run:
  "run_backtest ex_ps bt_st empty_config None new_mapper 0 = (Inr bt_result, bt_m34, 0)"
  unfolding bt_result_def bt_month4_def
  by (simp add: bt_eval build_final_results_def calc_overall_accuracy_def calc_random_baseline_def
     calc_improvement_gap_def calc_improvement_factor_def calc_avg_improvements_def comb_def
     linear_baseline_def bt_m34_def binomial_eq_0 eval_nat_numeral)

section \<open>Backtest: the claims\<close>

text \<open>
  Claim C8.  \<open>run_backtest\<close> reports the insufficient-data failure, which the method
  returns as a dictionary with the key \<open>error\<close>, if and only if the history store has
  fewer than four distinct months.
\<close>

theorem insufficient_months_iff:
  "(\<exists>d s' p'. run_backtest ps st cfg check s p = (Inr d, s', p') \<and> has_key d ''error'')
     \<longleftrightarrow> length (get_all_months st) < 4"
proof
  assume "\<exists>d s' p'. run_backtest ps st cfg check s p = (Inr d, s', p') \<and> has_key d ''error''"
  then obtain d s' p' where r: "run_backtest ps st cfg check s p = (Inr d, s', p')"
    and e: "has_key d ''error''" by blast
  from run_backtest_cases[OF r] e no_error_partial[of ps _ "get_or (top_n cfg) 2"]
    no_error_final[of ps _ "get_or (top_n cfg) 2"]
  show "length (get_all_months st) < 4"
    by auto
next
  assume "length (get_all_months st) < 4"
  then show "\<exists>d s' p'. run_backtest ps st cfg check s p = (Inr d, s', p') \<and> has_key d ''error''"
    by (simp add: run_backtest_def has_key_def)
qed

theorem insufficient_months_iff_witness:
  "length (get_all_months ex_st) < 4
   \<and> (\<exists>d s' p'. run_backtest ex_ps ex_st empty_config None new_mapper 0 = (Inr d, s', p')
                  \<and> has_key d ''error'')
   \<and> 4 \<le> length (get_all_months bt_st)
   \<and> \<not> (\<exists>d s' p'. run_backtest ex_ps bt_st empty_config None new_mapper 0 = (Inr d, s', p')
                    \<and> has_key d ''error'')"
proof -
  have h3: "length (get_all_months ex_st) < 4" by code_simp
  have h4: "\<not> length (get_all_months bt_st) < 4" by (simp add: bt_months)
  from insufficient_months_iff[of ex_ps ex_st empty_config None new_mapper 0]
    insufficient_months_iff[of ex_ps bt_st empty_config None new_mapper 0] h3 h4
  show ?thesis by simp
qed

text \<open>
  Claim C7.  On a store with at least four months, a cancellation predicate that answers
  true at its first call makes \<open>run_backtest\<close> return at once a result flagged cancelled,
  with no per-month results and no predictions, whose keys are those of the result of
  every run that does not report the insufficient-data failure.
\<close>

theorem cancelled_at_first_poll:
  assumes "4 \<le> length (get_all_months st)" and "c p"
  shows "\<exists>d. run_backtest ps st cfg (Some c) s p = (Inr d, s, p + 1)
           \<and> map_of d ''cancelled'' = Some (BBool True)
           \<and> map_of d ''per_month_results'' = Some (BMonths [])
           \<and> map_of d ''total_predictions'' = Some (BInt 0)
           \<and> (\<forall>ps' st' cfg' check' s0 p0 d' s1 p1.
                 run_backtest ps' st' cfg' check' s0 p0 = (Inr d', s1, p1)
                 \<and> \<not> has_key d' ''error'' \<longrightarrow> map fst d' = map fst d)"
proof -
  let ?months = "sort (get_all_months st)"
  have u: "[3 ..< length ?months] = 3 # [4 ..< length ?months]"
    using assms(1) by (simp add: upt_conv_Cons)
  have m: "month_loop ps st cfg (Some c) ?months [3 ..< length ?months] (start_state s p)
           = (Cancelled, (start_state s p)\<lparr>polls := p + 1\<rparr>)"
    unfolding u using assms(2) by (simp add: poll_def start_state_def)
  let ?d = "build_partial_results ps ((start_state s p)\<lparr>polls := p + 1\<rparr>) (get_or (top_n cfg) 2)"
  have r: "run_backtest ps st cfg (Some c) s p = (Inr ?d, s, p + 1)"
    using assms(1) m by (simp add: run_backtest_def Let_def start_state_def)
  have k: "map fst d' = map fst ?d"
    if "run_backtest ps' st' cfg' check' s0 p0 = (Inr d', s1, p1)" "\<not> has_key d' ''error''"
    for ps' st' cfg' check' s0 p0 d' s1 p1
    using run_backtest_cases[OF that(1)] that(2)
    by (auto simp: keys_partial keys_final has_key_def)
  have v: "map_of ?d ''cancelled'' = Some (BBool True)"
    "map_of ?d ''per_month_results'' = Some (BMonths [])"
    "map_of ?d ''total_predictions'' = Some (BInt 0)"
    by (simp_all add: build_partial_results_def Let_def start_state_def)
  from r v k show ?thesis by blast
qed

theorem cancelled_at_first_poll_witness:
  "4 \<le> length (get_all_months bt_st) \<and> (\<lambda>i::nat. True) 0
   \<and> (\<exists>d. run_backtest ex_ps bt_st empty_config (Some (\<lambda>i. True)) new_mapper 0
               = (Inr d, new_mapper, 0 + 1)
            \<and> map_of d ''cancelled'' = Some (BBool True)
            \<and> map_of d ''per_month_results'' = Some (BMonths [])
            \<and> map_of d ''total_predictions'' = Some (BInt 0)
            \<and> map fst bt_result = map fst d)"
proof -
  have h: "4 \<le> length (get_all_months bt_st)" by (simp add: bt_months)
  have e: "\<not> has_key bt_result ''error''" by (simp add: bt_result_def has_key_def)
  from cancelled_at_first_poll[OF h, of "\<lambda>i. True" 0 ex_ps empty_config new_mapper]
  obtain d where d: "run_backtest ex_ps bt_st empty_config (Some (\<lambda>i. True)) new_mapper 0
               = (Inr d, new_mapper, 0 + 1)"
    "map_of d ''cancelled'' = Some (BBool True)"
    "map_of d ''per_month_results'' = Some (BMonths [])"
    "map_of d ''total_predictions'' = Some (BInt 0)"
    and k: "\<forall>ps' st' cfg' check' s0 p0 d' s1 p1.
                 run_backtest ps' st' cfg' check' s0 p0 = (Inr d', s1, p1)
                 \<and> \<not> has_key d' ''error'' \<longrightarrow> map fst d' = map fst d"
    by blast
  from k bt_run e have "map fst bt_result = map fst d" by blast
  with h d show ?thesis by blast
qed

text \<open>
  Claim C5.  In every result of \<open>run_backtest\<close> with at least one per-month result, the
  overall accuracy is the sum of the per-month accuracies divided by their number, and
  each per-month accuracy is correct predictions over predictions, 0 for a month without
  predictions; per-month accuracies 0.5, 1.0 and 0.0 aggregate to exactly 0.5.
\<close>

theorem overall_accuracy_is_mean:
  "(run_backtest ps st cfg check s p = (Inr d, s', p')
      \<and> map_of d ''per_month_results'' = Some (BMonths rs) \<and> rs \<noteq> []
    \<longrightarrow> map_of d ''overall_accuracy'' = Some (BReal (sum_list (map r_accuracy rs) / real (length rs)))
        \<and> (\<forall>r \<in> set rs. r_accuracy r =
              (if r_predictions r > 0 then real (r_correct r) / real (r_predictions r) else 0)))
   \<and> (map r_accuracy rs' = [1 / 2, 1, 0] \<longrightarrow> calc_overall_accuracy rs' = 1 / 2)"
proof (intro conjI impI)
  assume a: "run_backtest ps st cfg check s p = (Inr d, s', p')
      \<and> map_of d ''per_month_results'' = Some (BMonths rs) \<and> rs \<noteq> []"
  then have r: "run_backtest ps st cfg check s p = (Inr d, s', p')"
    and pm: "map_of d ''per_month_results'' = Some (BMonths rs)" and ne: "rs \<noteq> []" by auto
  from run_backtest_cases[OF r] pm obtain b where b: "bt_inv ps b"
    and d: "d = build_partial_results ps b (get_or (top_n cfg) 2) \<or>
            d = build_final_results ps b (get_or (top_n cfg) 2)"
    by auto
  from d pm have rs: "rs = per_month_results b"
    by (auto simp: build_partial_results_def build_final_results_def Let_def)
  from d ne show "map_of d ''overall_accuracy'' = Some (BReal (sum_list (map r_accuracy rs) / real (length rs)))"
    by (auto simp: rs build_partial_results_def build_final_results_def Let_def calc_overall_accuracy_def)
  from b show "\<forall>r \<in> set rs. r_accuracy r =
              (if r_predictions r > 0 then real (r_correct r) / real (r_predictions r) else 0)"
    by (simp add: rs bt_inv_def accuracy_ok_def)
next
  assume "map r_accuracy rs' = [1 / 2, 1, 0]"
  from sum_list_map3[OF this] show "calc_overall_accuracy rs' = 1 / 2"
    by (auto simp: calc_overall_accuracy_def)
qed

theorem overall_accuracy_is_mean_witness:
  "run_backtest ex_ps bt_st empty_config None new_mapper 0 = (Inr bt_result, bt_m34, 0)
   \<and> map_of bt_result ''per_month_results'' = Some (BMonths [bt_month4]) \<and> [bt_month4] \<noteq> []
   \<and> map_of bt_result ''overall_accuracy''
       = Some (BReal (sum_list (map r_accuracy [bt_month4]) / real (length [bt_month4])))
   \<and> r_accuracy bt_month4 = real (r_correct bt_month4) / real (r_predictions bt_month4)
   \<and> map r_accuracy three_months = [1 / 2, 1, 0]
   \<and> calc_overall_accuracy three_months = 1 / 2"
proof -
  have p: "map_of bt_result ''per_month_results'' = Some (BMonths [bt_month4])"
    by (simp add: bt_result_def)
  have t: "map r_accuracy three_months = [1 / 2, 1, 0]"
    by (simp add: three_months_def)
  have q: "0 < r_predictions bt_month4" by (simp add: bt_month4_def)
  from overall_accuracy_is_mean[of ex_ps bt_st empty_config None new_mapper 0 bt_result bt_m34 0
      "[bt_month4]" three_months] bt_run p t q
  show ?thesis by simp
qed

text \<open>
  Claim C4.  In every result of \<open>run_backtest\<close> with at least one evaluated case, that
  is with a positive mean improvement-set size \<open>k\<close>, and a recommendation count
  \<open>topN\<close> that is not negative, the random baseline for \<open>N\<close> practices is
  \<open>1 - C(N - k, topN) / C(N, topN)\<close> when \<open>k\<close> is an integer, \<open>k \<le> N\<close> and
  \<open>topN \<le> N\<close>, and \<open>min(1, (k / N) * topN)\<close> otherwise.
\<close>

theorem random_baseline_formula:
  assumes "run_backtest ps st cfg check s p = (Inr d, s', p')"
    and "map_of d ''avg_improvements_per_case'' = Some (BReal k)" and "k > 0"
    and "0 \<le> get_or (top_n cfg) 2"
  shows "map_of d ''random_baseline''
         = Some (BReal (claimed_baseline (length ps) k (get_or (top_n cfg) 2)))"
proof -
  from run_backtest_cases[OF assms(1)] assms(2) obtain b where b: "bt_inv ps b"
    and d: "d = build_partial_results ps b (get_or (top_n cfg) 2) \<or>
            d = build_final_results ps b (get_or (top_n cfg) 2)"
    by auto
  let ?ipc = "improvements_per_case b"
  from d assms(2) have k: "k = calc_avg_improvements ?ipc"
    by (auto simp: build_partial_results_def build_final_results_def Let_def)
  with assms(3) have ne: "?ipc \<noteq> []" and k': "k = real (sum_list ?ipc) / real (length ?ipc)"
    by (auto simp: calc_avg_improvements_def split: if_splits)
  from b ne have ge: "\<forall>k \<in> set ?ipc. k \<ge> 1" and n: "length ps > 0"
    by (auto simp: bt_inv_def)
  from calc_random_baseline_claimed[OF ne ge n assms(4)] d show ?thesis
    by (auto simp: build_partial_results_def build_final_results_def Let_def k')
qed

theorem random_baseline_formula_witness:
  "run_backtest ex_ps bt_st empty_config None new_mapper 0 = (Inr bt_result, bt_m34, 0)
   \<and> map_of bt_result ''avg_improvements_per_case'' = Some (BReal 1) \<and> (0::real) < 1
   \<and> 0 \<le> get_or (top_n empty_config) 2
   \<and> map_of bt_result ''random_baseline''
       = Some (BReal (claimed_baseline (length ex_ps) 1 (get_or (top_n empty_config) 2)))
   \<and> claimed_baseline (length ex_ps) 1 (get_or (top_n empty_config) 2) = 2 / 3"
proof -
  have a: "map_of bt_result ''avg_improvements_per_case'' = Some (BReal 1)"
    by (simp add: bt_result_def)
  have t: "0 \<le> get_or (top_n empty_config) 2"
    by (simp add: empty_config_def get_or_def)
  have v: "map_of bt_result ''random_baseline'' = Some (BReal (2 / 3))"
    by (simp add: bt_result_def)
  from random_baseline_formula[OF bt_run a _ t] bt_run a t v
  show ?thesis by simp
qed

section \<open>Recommender: the example stores evaluated\<close>

lemmas rec_eval = Let_def learn_sequences_up_to_month_def
  has_month_def learn_pair_def improved_practices_def
  recommend_def practices_scores_of_def neighbour_improvements_def
  combine_scores_def normalize_scores_def max_or_one_def dict_get_def py_prefix_def
  get_typical_next_practices_def most_common_def new_mapper_def ex_ps_def eval_nat_numeral

lemma c1_months: "get_all_months c1_st = [1, 2, 3]"
  by code_simp
lemma c1_teams: "get_all_teams c1_st = [''TeamA'', ''TeamB'']"
  by code_simp
lemma c1_histA: "get_team_history c1_st ''TeamA'' = Inr [(1, [0, 1/3, 0]), (2, [0, 1/3, 0]), (3, [1/3, 1/3, 0])]"
  by (simp add: c1_st_def get_team_history_def)
lemma c1_histB: "get_team_history c1_st ''TeamB'' = Inr [(1, [0, 0, 0]), (2, [1/3, 1/3, 0]), (3, [1/3, 1/3, 1/3])]"
  by (simp add: c1_st_def get_team_history_def)
lemma c1_cos1: "cosine_similarity [1/3, 1/3, 0] [0, 0, 0] = Inr 0"
  by (simp add: cosine_similarity_def l2_norm_def)
lemma c1_cos2: "cosine_similarity [1/3, 1/3, 0] [1/3, 1/3, 0] = Inr 1"
  by (simp add: cosine_similarity_def l2_norm_def)
lemma c1_similar: "find_similar_teams c1_st ''TeamA'' 3 5 (3/4) = Inr [(''TeamB'', 1, 2)]"
  by (simp add: find_similar_teams_def c1_histA c1_histB c1_months c1_teams c1_cos1 c1_cos2
      keep_best_def py_prefix_def)

lemma c1_loop: "similarity_loop ex_ps c1_st 3 [(''TeamB'', 1, 2)] [] (1/5) = ([(''P3'', 1/3)], 1)"
  by (simp add: rec_eval c1_histB)

lemma c1_scores: "practices_scores_of ex_ps c1_st c1_m3 [(1, [0, 1/3, 0]), (2, [0, 1/3, 0]), (3, [1/3, 1/3, 0])] 3 [(''TeamB'', 1, 2)] (1/5) 3 = Inr [(''P3'', 1), (''P2'', 0)]"
  by (simp add: rec_eval c1_histB c1_m3_def)

lemma c1_claimed: "combine_scores (1/5) [(''P3'', 1/3)] [(''P2'', 1)] = [(''P3'', 1/5), (''P2'', 4/5)]"
  by (simp add: rec_eval)

lemma c1_rec: "recommend ex_ps c1_st new_mapper ''TeamA'' 3 2 5 False (1/5) 3 3 (3/4) = (Inr [(''P3'', 1, 0), (''P2'', 0, 1/3)], c1_m3)"
  by (simp add: rec_eval c1_months c1_teams c1_histA c1_histB c1_similar c1_m3_def)

lemma c2_months: "get_all_months c2_st = [1, 2, 3]"
  by code_simp
lemma c2_teams: "get_all_teams c2_st = [''TeamA'', ''TeamB'']"
  by code_simp
lemma c2_histA: "get_team_history c2_st ''TeamA'' = Inr [(3, [1/3, 0, 0])]"
  by (simp add: c2_st_def get_team_history_def)
lemma c2_histB: "get_team_history c2_st ''TeamB'' = Inr [(1, [1/3, 0, 0]), (2, [1/3, 0, 0]), (3, [1/3, 1/3, 0])]"
  by (simp add: c2_st_def get_team_history_def)
lemma c2_cos: "cosine_similarity [1/3, 0, 0] [1/3, 0, 0] = Inr 1"
  by (simp add: cosine_similarity_def l2_norm_def)
lemma c2_similar: "find_similar_teams c2_st ''TeamA'' 3 5 (3/4) = Inr [(''TeamB'', 1, 1)]"
  by (simp add: find_similar_teams_def c2_histA c2_histB c2_months c2_teams c2_cos
      keep_best_def py_prefix_def)
lemma c2_nb: "neighbour_improvements ex_ps c2_st 3 ''TeamB'' 1 = Inr [(''P2'', 1/3)]"
  by (simp add: rec_eval c2_histB)
lemma c2_rec: "fst (recommend ex_ps c2_st new_mapper ''TeamA'' 3 2 5 False (3/5) 1 3 (3/4)) = Inr [(''P2'', 1, 0)]"
  by (simp add: rec_eval c2_months c2_teams c2_histA c2_histB c2_similar)

lemma c10_months: "get_all_months c10_st = [1, 2]"
  by code_simp
lemma c10_teams: "get_all_teams c10_st = [''TeamA'', ''TeamB'']"
  by code_simp
lemma c10_histA: "get_team_history c10_st ''TeamA'' = Inr [(2, [0, 0, 1])]"
  by (simp add: c10_st_def get_team_history_def)
lemma c10_histB: "get_team_history c10_st ''TeamB'' = Inr [(1, [0, 0, 1/3]), (2, [0, 1/3, 1])]"
  by (simp add: c10_st_def get_team_history_def)
lemma c10_cos: "cosine_similarity [0, 0, 1] [0, 0, 1/3] = Inr 1"
  by (simp add: cosine_similarity_def l2_norm_def real_sqrt_divide)
lemma c10_similar: "find_similar_teams c10_st ''TeamA'' 2 5 0 = Inr [(''TeamB'', 1, 1)]"
  by (simp add: find_similar_teams_def c10_histA c10_histB c10_months c10_teams c10_cos
      keep_best_def py_prefix_def)
lemma c10_scores: "practices_scores_of ex_ps c10_st s [(2, [0, 0, 1])] 2 [(''TeamB'', 1, 1)] (3/5) 3 = Inr [(''P2'', 1/2), (''P3'', 1)]"
  by (simp add: rec_eval c10_histB)
lemma c10_rec: "fst (recommend ex_ps c10_st new_mapper ''TeamA'' 2 2 5 False (3/5) 3 3 0) = Inr [(''P2'', 1/2, 0)]"
  by (simp add: rec_eval c10_months c10_teams c10_histA c10_histB c10_similar)

section \<open>Recommender: the claims\<close>

text \<open>
  Claim C1, at a failing input.  \<open>recommend\<close> is called with \<open>similarity_weight = 0.2\<close>
  on the store \<open>c1_st\<close>.  The loop over the similar teams leaves the variable
  \<open>similarity_weight\<close> at 1, the similarity of the last neighbour, and the combined
  scores are formed with that value: P3 gets 1 and P2 gets 0, where the weight of the call
  gives P3 the score 0.2 and P2 the score 0.8, and the ranking of the two is reversed.
\<close>

theorem similarity_weight_rebound_by_loop:
  "similarity_loop ex_ps c1_st 3 [(''TeamB'', 1, 2)] [] (1/5) = ([(''P3'', 1/3)], 1)
   \<and> practices_scores_of ex_ps c1_st c1_m3
         [(1, [0, 1/3, 0]), (2, [0, 1/3, 0]), (3, [1/3, 1/3, 0])] 3 [(''TeamB'', 1, 2)] (1/5) 3
       = Inr [(''P3'', 1), (''P2'', 0)]
   \<and> combine_scores (1/5) [(''P3'', 1/3)] [(''P2'', 1)] = [(''P3'', 1/5), (''P2'', 4/5)]
   \<and> recommend ex_ps c1_st new_mapper ''TeamA'' 3 2 5 False (1/5) 3 3 (3/4)
       = (Inr [(''P3'', 1, 0), (''P2'', 0, 1/3)], c1_m3)"
  using c1_loop c1_scores c1_claimed c1_rec by simp

text \<open>
  Claim C2, at a failing input.  \<open>recommend\<close> is called with
  \<open>similar_teams_lookahead_months = 1\<close> on the store \<open>c2_st\<close>, where the neighbour
  TeamB, similar at month 1, raises P2 only in month 3, its second month after.  The scan
  goes on to that month and the call recommends P2; a scan of one month finds nothing.
\<close>

theorem lookahead_fixed_at_three:
  "neighbour_improvements ex_ps c2_st 3 ''TeamB'' 1 = Inr [(''P2'', 1/3)]
   \<and> fst (recommend ex_ps c2_st new_mapper ''TeamA'' 3 2 5 False (3/5) 1 3 (3/4))
       = Inr [(''P2'', 1, 0)]"
  using c2_nb c2_rec by simp

lemma filter_and_scale_sound:
  "filter_and_scale ps cur mx scores = Inr recs \<Longrightarrow>
   \<forall>(p, sc, lvl) \<in> set recs.
     \<exists>score. (p, score) \<in> set scores \<and> sc = (if mx > 0 then score / mx else 0) \<and> lvl < 1"
proof (induction scores arbitrary: recs)
  case Nil
  then show ?case by simp
next
  case (Cons a scores)
  obtain p score where a: "a = (p, score)" by (cases a)
  from Cons.prems obtain i r where
    i: "index_of p ps = Some i" "i < length cur" and
    r: "filter_and_scale ps cur mx scores = Inr r" and
    recs: "recs = (if cur ! i \<ge> 1 then r
                   else (p, if mx > 0 then score / mx else 0, cur ! i) # r)"
    by (auto simp: a Let_def split: option.splits if_splits sum.splits)
  from Cons.IH[OF r] show ?case
    by (auto simp: recs a)
qed

lemma set_py_prefix: "set (py_prefix k xs) \<subseteq> set xs"
  by (auto simp: py_prefix_def dest: in_set_takeD)

text \<open>
  Claim C10.  Every score \<open>recommend\<close> returns is a combined score divided by the
  maximum over all combined scores, those of the practices dropped for a current level
  of 1 or more included, and every returned practice has a current level below 1.  So
  there are inputs on which the list returned is not empty and its highest score is
  below 1: on the store \<open>c10_st\<close> the maximum belongs to P3, which TeamA has at level 1,
  and the only recommendation is P2 with score 0.5.
\<close>

theorem final_divisor_over_all_scores:
  "(fst (recommend ps st s team m tn k allow w L R ms) = Inr recs \<longrightarrow>
      (\<exists>h s' sims scores.
          get_team_history st team = Inr h
        \<and> learn_sequences_up_to_month ps st m s = Inr s'
        \<and> find_similar_teams st team m k ms = Inr sims
        \<and> practices_scores_of ps st s' h m sims w R = Inr scores
        \<and> (\<forall>(p, sc, lvl) \<in> set recs.
              \<exists>score. (p, score) \<in> set scores
                \<and> sc = (if max_or_one scores > 0 then score / max_or_one scores else 0)
                \<and> lvl < 1)))
   \<and> (\<exists>ps st s team m tn k allow w L R ms recs.
         fst (recommend ps st s team m tn k allow w L R ms) = Inr recs
       \<and> recs \<noteq> [] \<and> (\<forall>(p, sc, lvl) \<in> set recs. sc < 1))"
proof (intro conjI impI)
  assume a: "fst (recommend ps st s team m tn k allow w L R ms) = Inr recs"
  then obtain h cur s' sims scores r where
    h: "get_team_history st team = Inr h" and
    l: "learn_sequences_up_to_month ps st m s = Inr s'" and
    f: "find_similar_teams st team m k ms = Inr sims" and
    p: "practices_scores_of ps st s' h m sims w R = Inr scores" and
    fs: "filter_and_scale ps cur (max_or_one scores) scores = Inr r" and
    recs: "recs = py_prefix tn (sort_key (\<lambda>(p, score, level). - score) r)"
    by (auto simp: recommend_def split: sum.splits option.splits if_splits)
  have "set recs \<subseteq> set r"
    unfolding recs using set_py_prefix[of tn "sort_key (\<lambda>(p, score, level). - score) r"] by simp
  with filter_and_scale_sound[OF fs] h l f p
  show "\<exists>h s' sims scores.
          get_team_history st team = Inr h
        \<and> learn_sequences_up_to_month ps st m s = Inr s'
        \<and> find_similar_teams st team m k ms = Inr sims
        \<and> practices_scores_of ps st s' h m sims w R = Inr scores
        \<and> (\<forall>(p, sc, lvl) \<in> set recs.
              \<exists>score. (p, score) \<in> set scores
                \<and> sc = (if max_or_one scores > 0 then score / max_or_one scores else 0)
                \<and> lvl < 1)"
    by blast
next
  have "fst (recommend ex_ps c10_st new_mapper ''TeamA'' 2 2 5 False (3/5) 3 3 0)
        = Inr [(''P2'', 1/2, 0)]"
    by (rule c10_rec)
  moreover have "[(''P2'', 1/2::real, 0::real)] \<noteq> [] \<and>
    (\<forall>(p, sc, lvl) \<in> set [(''P2'', 1/2::real, 0::real)]. sc < 1)" by simp
  ultimately show "\<exists>ps st s team m tn k allow w L R ms recs.
         fst (recommend ps st s team m tn k allow w L R ms) = Inr recs
       \<and> recs \<noteq> [] \<and> (\<forall>(p, sc, lvl) \<in> set recs. sc < 1)"
    by blast
qed

theorem final_divisor_over_all_scores_witness:
  "fst (recommend ex_ps c10_st new_mapper ''TeamA'' 2 2 5 False (3/5) 3 3 0)
     = Inr [(''P2'', 1/2, 0)]
   \<and> (\<exists>h s' sims.
          get_team_history c10_st ''TeamA'' = Inr h
        \<and> learn_sequences_up_to_month ex_ps c10_st 2 new_mapper = Inr s'
        \<and> find_similar_teams c10_st ''TeamA'' 2 5 0 = Inr sims
        \<and> practices_scores_of ex_ps c10_st s' h 2 sims (3/5) 3 = Inr [(''P2'', 1/2), (''P3'', 1)])
   \<and> max_or_one [(''P2'', 1/2), (''P3'', 1)] = 1"
proof -
  have r: "fst (recommend ex_ps c10_st new_mapper ''TeamA'' 2 2 5 False (3/5) 3 3 0)
        = Inr [(''P2'', 1/2, 0)]"
    by (rule c10_rec)
  from final_divisor_over_all_scores[of ex_ps c10_st new_mapper "''TeamA''" 2 2 5 False "3/5" 3 3 0
      "[(''P2'', 1/2, 0)]"] r
  obtain h s' sims scores where
    "get_team_history c10_st ''TeamA'' = Inr h"
    "learn_sequences_up_to_month ex_ps c10_st 2 new_mapper = Inr s'"
    "find_similar_teams c10_st ''TeamA'' 2 5 0 = Inr sims"
    "practices_scores_of ex_ps c10_st s' h 2 sims (3/5) 3 = Inr scores"
    by blast
  then have "\<exists>h s' sims.
          get_team_history c10_st ''TeamA'' = Inr h
        \<and> learn_sequences_up_to_month ex_ps c10_st 2 new_mapper = Inr s'
        \<and> find_similar_teams c10_st ''TeamA'' 2 5 0 = Inr sims
        \<and> practices_scores_of ex_ps c10_st s' h 2 sims (3/5) 3 = Inr [(''P2'', 1/2), (''P3'', 1)]"
    by (auto simp: c10_histA c10_similar c10_scores)
  moreover have "max_or_one [(''P2'', 1/2), (''P3'', 1)] = 1"
    by (simp add: max_or_one_def)
  ultimately show ?thesis using r by blast
qed

end
